theory Spec2Isabelle
  imports Main
begin

section \<open>Data model\<close>

text \<open>
  The application is a FastAPI service over a PostgreSQL database. Every table the
  handlers read or write is a list of rows (\<open>fetchone\<close> is the first matching row,
  \<open>fetchall\<close> the matching rows in table order); the record fields carry the alias
  the SQL of the source gives the table (\<open>u\<close>, \<open>rp\<close>, \<open>br\<close>, ...).
  Identifiers are the canonical strings of the UUIDs, timestamps are natural numbers.
\<close>

type_synonym timestamp = nat

text \<open>Exceptions: \<open>HTTPException(status_code, detail)\<close>, which the framework turns
  into the response with that status, and the exceptions of Python, of the database driver
  and of the libraries. One of the latter that no handler catches leaves the request with
  status 500.\<close>

datatype error =
    HTTPException nat string
  | TypeError
  | ValueError
  | ValidationError
  | UniqueViolation
  | UnknownHashError
  | PasswordValueError
  | ISO8601SyntaxError
  | BadInputError

text \<open>\<open>models/auth.py\<close>: \<open>BaseUser\<close> and \<open>User\<close> (also the row of table \<open>users\<close>).\<close>

record BaseUser =
  bu_username :: string
  bu_name :: string
  bu_email :: string

record User =
  u_username :: string
  u_password :: string
  u_email :: string
  u_name :: string
  u_institution_id :: "string option"

record Role =
  r_role_id :: string
  r_name :: string
  r_description :: string

record Permission =
  p_permission_id :: string
  p_name :: string

record role_by_user_row =
  rbu_role_id :: string
  rbu_username :: string

record permissions_by_role_row =
  pbr_permission_id :: string
  pbr_role_id :: string

text \<open>\<open>models/base.py\<close>: institutions.\<close>

datatype InstitutionTypes = MEDICAL_PRACTICE | PHARMACY

record BaseInstitution =
  bi_name :: string
  bi_address_line_1 :: string
  bi_address_line_2 :: string
  bi_address_line_3 :: "string option"
  bi_address_line_4 :: "string option"
  bi_city :: string
  bi_state :: string
  bi_postcode :: string

record Institution =
  i_institution_id :: string
  i_institution_type :: InstitutionTypes
  i_details :: BaseInstitution

record pending_user_row =
  pu_username :: string
  pu_name :: string
  pu_email :: string
  pu_institution_id :: string

datatype RegistrationType =
  GP | HEAD_PHARMACIST | PATIENT | MEDICAL_PRACTICE_ADMINISTRATOR | PHARMACY_TECHNICIAN | PHARMACIST

record registration_token_row =
  rt_token_id :: string
  rt_token_type :: RegistrationType
  rt_username :: string

record pharmacy_assignment_row =
  pa_username :: string
  pa_institution_id :: string

text \<open>\<open>models/medication.py\<close>.\<close>

datatype MedicationBloodworkTypes = FULL_BLOOD_COUNT | BLOOD_PRESSURE | UREA_ELECTROLYTES

record Medication =
  m_medication_id :: string
  m_medication_name :: string
  m_bloodwork_requirement :: "MedicationBloodworkTypes option"

text \<open>Table \<open>repeat_prescriptions\<close>. The columns the \<open>INSERT\<close> of
  \<open>create_prescription\<close> does not name (\<open>approved_at\<close>, \<open>issued_at\<close>,
  \<open>issued_by\<close>) are nullable and start as \<open>NULL\<close>. \<open>update_prescription\<close> can
  store \<open>NULL\<close> in \<open>medication_id\<close> and \<open>time_statement\<close>, so these are options
  in the row.\<close>

record repeat_prescriptions_row =
  rp_prescription_id :: string
  rp_medication_id :: "string option"
  rp_time_statement :: "string option"
  rp_institution_id :: string
  rp_created_by_institution_id :: "string option"
  rp_username :: string
  rp_approved_at :: "timestamp option"
  rp_issued_at :: "timestamp option"
  rp_issued_by :: "string option"
  rp_short_code :: int

text \<open>\<open>models/prescriptions.py\<close>: \<open>BasePrescription\<close> (the body of a create
  request), \<open>Prescription\<close> (what \<open>get_prescription\<close> selects, validated) and
  \<open>PrescriptionModifyRequest\<close>, whose fields are each unset, or set to a string or to
  \<open>null\<close> (\<open>dict(exclude_unset=True)\<close> tells the two apart).\<close>

record BasePrescription =
  bp_medication_id :: string
  bp_time_statement :: string

record Prescription =
  pr_prescription_id :: string
  pr_medication_id :: string
  pr_time_statement :: string
  pr_institution_id :: string
  pr_username :: string
  pr_approved_at :: "timestamp option"
  pr_issued_at :: "timestamp option"
  pr_issued_by :: "string option"
  pr_short_code :: int

datatype 'a request_field = Unset | Given "'a option"

record PrescriptionModifyRequest =
  mr_time_statement :: "string request_field"
  mr_medication_id :: "string request_field"

record PrescriptionCreatedResponse =
  cr_prescription_id :: string
  cr_bloodwork_request_id :: "string option"

text \<open>Table \<open>blood_requests\<close>.\<close>

record blood_requests_row =
  br_request_id :: string
  br_request_type :: MedicationBloodworkTypes
  br_prescription_id :: string
  br_practice_id :: "string option"
  br_completed_at :: "timestamp option"

text \<open>A mail handed to the mail service by \<open>send_mail\<close>.\<close>

record mail =
  ml_email :: string
  ml_name :: string
  ml_template_id :: string
  ml_url :: string

text \<open>The state the handlers work on: the tables, and the mails sent so far.\<close>

record db =
  tbl_users :: "User list"
  tbl_pending_users :: "pending_user_row list"
  tbl_institutions :: "Institution list"
  tbl_roles :: "Role list"
  tbl_permissions :: "Permission list"
  tbl_role_by_user :: "role_by_user_row list"
  tbl_permissions_by_role :: "permissions_by_role_row list"
  tbl_pharmacy_assignments :: "pharmacy_assignment_row list"
  tbl_medications :: "Medication list"
  tbl_repeat_prescriptions :: "repeat_prescriptions_row list"
  tbl_blood_requests :: "blood_requests_row list"
  tbl_registration_tokens :: "registration_token_row list"
  sent_mail :: "mail list"

definition empty_db :: db where
  "empty_db = \<lparr>tbl_users = [], tbl_pending_users = [], tbl_institutions = [], tbl_roles = [],
     tbl_permissions = [], tbl_role_by_user = [], tbl_permissions_by_role = [],
     tbl_pharmacy_assignments = [], tbl_medications = [], tbl_repeat_prescriptions = [],
     tbl_blood_requests = [], tbl_registration_tokens = [], sent_mail = []\<rparr>"

section \<open>Authentication and authorization (\<open>auth.py\<close>, \<open>permissions.py\<close>, \<open>main.py\<close>)\<close>

text \<open>\<open>user_queries.get_user_by_username\<close>: the generator yields \<open>fetchone()\<close>, the
  row or \<open>None\<close>.\<close>

definition get_user_by_username :: "db \<Rightarrow> string \<Rightarrow> User option" where
  "get_user_by_username d username = find (\<lambda>u. u_username u = username) (tbl_users d)"

text \<open>\<open>user_queries.get_user_permissions\<close>: the distinct \<open>(permission_id, name)\<close>
  rows of the join roles - role_by_user - permissions_by_role - permissions for the user.\<close>

definition get_user_permissions :: "db \<Rightarrow> string \<Rightarrow> Permission list" where
  "get_user_permissions d username =
     remdups [p.
       r \<leftarrow> tbl_roles d,
       rbu \<leftarrow> tbl_role_by_user d, rbu_role_id rbu = r_role_id r,
       pbr \<leftarrow> tbl_permissions_by_role d, pbr_role_id pbr = r_role_id r,
       p \<leftarrow> tbl_permissions d, p_permission_id p = pbr_permission_id pbr,
       rbu_username rbu = username]"

definition NOT_ALLOWED_EXCEPTION :: error where
  "NOT_ALLOWED_EXCEPTION = HTTPException 403 ''Unauthorized.''"

definition credentials_exception :: error where
  "credentials_exception = HTTPException 401 ''Could not validate credentials''"

text \<open>Python's \<open>any\<close> over strings: an element counts when it is truthy, that is,
  when it is not the empty string.\<close>

definition any_str :: "string list \<Rightarrow> bool" where
  "any_str xs = list_ex (\<lambda>s. s \<noteq> []) xs"

text \<open>\<open>auth.check_user_by_permissions\<close>. The generator expression of the source is
  \<open>any(p for p in user_permissions if p in permissions)\<close>: it yields the names
  themselves, and \<open>any\<close> tests their truth value.\<close>

definition check_user_by_permissions :: "db \<Rightarrow> string list \<Rightarrow> User \<Rightarrow> error + User" where
  "check_user_by_permissions d permissions user =
     (let user_permissions = map p_name (get_user_permissions d (u_username user)) in
      if ''*'' \<in> set user_permissions then Inr user
      else
        let has_permission = any_str (filter (\<lambda>p. p \<in> set permissions) user_permissions) in
        if \<not> has_permission then Inl NOT_ALLOWED_EXCEPTION else Inr user)"

text \<open>\<open>auth.get_current_user\<close>. \<open>jwt_decode\<close> is \<open>jwt.decode\<close> with the server's
  key and algorithm: the claims of the token, or \<open>None\<close> when it raises \<open>JWTError\<close>
  (malformed, badly signed or expired). The last line of the source is
  \<open>User(**next(get_user_by_username(username=username)))\<close>: when no row is found
  \<open>next\<close> gives \<open>None\<close> and \<open>User(**None)\<close> raises \<open>TypeError\<close>.\<close>

definition get_current_user ::
  "(string \<Rightarrow> (string \<rightharpoonup> string) option) \<Rightarrow> db \<Rightarrow> string option \<Rightarrow> error + User" where
  "get_current_user jwt_decode d token =
     (case token of
        None \<Rightarrow> Inl credentials_exception
      | Some tok \<Rightarrow>
          (case jwt_decode tok of
             None \<Rightarrow> Inl credentials_exception
           | Some payload \<Rightarrow>
               (case payload ''uid'' of
                  None \<Rightarrow> Inl credentials_exception
                | Some username \<Rightarrow>
                    (case get_user_by_username d username of
                       None \<Rightarrow> Inl TypeError
                     | Some user \<Rightarrow> Inr user))))"

text \<open>\<open>permissions.PermissionsChecker.__call__\<close>.\<close>

definition PermissionsChecker ::
  "(string \<Rightarrow> (string \<rightharpoonup> string) option) \<Rightarrow> string list \<Rightarrow> db \<Rightarrow> string option \<Rightarrow> error + User" where
  "PermissionsChecker jwt_decode permissions d token =
     (case get_current_user jwt_decode d token of
        Inl e \<Rightarrow> Inl e
      | Inr user \<Rightarrow>
          if length permissions < 1 then Inr user
          else check_user_by_permissions d permissions user)"

text \<open>\<open>auth.verify_password\<close>. \<open>pwd_verify\<close> is \<open>PWD_CONTEXT.verify\<close>: the outcome
  of the comparison, or the exception it raises (\<open>UnknownHashError\<close> for a stored value
  that is no hash of a known scheme, \<open>PasswordValueError\<close> for a password with a NUL
  byte, \<open>ValueError\<close> for a malformed hash). The source catches
  \<open>UnknownHashError\<close> only.\<close>

definition verify_password ::
  "(string \<Rightarrow> string \<Rightarrow> error + bool) \<Rightarrow> string \<Rightarrow> string \<Rightarrow> error + bool" where
  "verify_password pwd_verify plain_password hashed_password =
     (case pwd_verify plain_password hashed_password of
        Inl e \<Rightarrow> if e = UnknownHashError then Inr False else Inl e
      | Inr pwd \<Rightarrow> Inr pwd)"

definition BaseUser_of :: "User \<Rightarrow> BaseUser" where
  "BaseUser_of user = \<lparr>bu_username = u_username user, bu_name = u_name user, bu_email = u_email user\<rparr>"

definition authenticate_user ::
  "(string \<Rightarrow> string \<Rightarrow> error + bool) \<Rightarrow> db \<Rightarrow> string \<Rightarrow> string \<Rightarrow> error + BaseUser option" where
  "authenticate_user pwd_verify d username password =
     (case get_user_by_username d username of
        None \<Rightarrow> Inr None
      | Some user \<Rightarrow>
          (case verify_password pwd_verify password (u_password user) of
             Inl e \<Rightarrow> Inl e
           | Inr password_valid \<Rightarrow>
               Inr (if password_valid then Some (BaseUser_of user) else None)))"

text \<open>\<open>auth.create_token\<close>: \<open>jwt_encode\<close> is \<open>jwt.encode\<close> with the server's key,
  applied to the expiry and the \<open>uid\<close> claim; the times are in minutes.\<close>

definition create_token :: "(timestamp \<Rightarrow> string \<Rightarrow> string) \<Rightarrow> timestamp \<Rightarrow> string \<Rightarrow> nat \<Rightarrow> string" where
  "create_token jwt_encode now username token_expiry_minutes =
     (let expiry = now + token_expiry_minutes in jwt_encode expiry username)"

record token_response =
  access_token :: string
  token_type :: string

text \<open>\<open>main.login\<close>.\<close>

definition login ::
  "(string \<Rightarrow> string \<Rightarrow> error + bool) \<Rightarrow> (timestamp \<Rightarrow> string \<Rightarrow> string) \<Rightarrow> timestamp \<Rightarrow> db
     \<Rightarrow> string \<Rightarrow> string \<Rightarrow> error + token_response" where
  "login pwd_verify jwt_encode now d username password =
     (case authenticate_user pwd_verify d username password of
        Inl e \<Rightarrow> Inl e
      | Inr None \<Rightarrow> Inl (HTTPException 401 ''Unauthorized.'')
      | Inr (Some user) \<Rightarrow>
          let access_token = create_token jwt_encode now (bu_username user) 180 in
          Inr \<lparr>access_token = access_token, token_type = ''bearer''\<rparr>)"

section \<open>Queries used by the prescription workflow\<close>

text \<open>\<open>medical_practice_queries.get_medical_practice\<close>. The user's \<open>institution_id\<close>
  may be \<open>None\<close>; the comparison with \<open>NULL\<close> then selects no row.\<close>

definition get_medical_practice :: "db \<Rightarrow> string option \<Rightarrow> Institution option" where
  "get_medical_practice d practice_id =
     (case practice_id of
        None \<Rightarrow> None
      | Some pid \<Rightarrow>
          find (\<lambda>i. i_institution_type i = MEDICAL_PRACTICE \<and> i_institution_id i = pid)
            (tbl_institutions d))"

definition get_users_pharmacy_assignment :: "db \<Rightarrow> string \<Rightarrow> pharmacy_assignment_row option" where
  "get_users_pharmacy_assignment d username =
     find (\<lambda>pa. pa_username pa = username) (tbl_pharmacy_assignments d)"

definition get_medication_by_id :: "db \<Rightarrow> string \<Rightarrow> Medication option" where
  "get_medication_by_id d medication_id =
     find (\<lambda>m. m_medication_id m = medication_id) (tbl_medications d)"

text \<open>The module \<open>random\<close> of the Python library: \<open>seed\<close> replaces the state of the
  process-wide generator, \<open>randint\<close> draws from it and advances it.\<close>

record 'g random_module =
  rnd_seed :: "int \<Rightarrow> 'g"
  rnd_randint :: "'g \<Rightarrow> int \<Rightarrow> int \<Rightarrow> int \<times> 'g"

text \<open>\<open>prescriptions_queries.create_prescription\<close>. \<open>uuid4\<close> is the identifier that
  \<open>uuid.uuid4()\<close> draws; the state \<open>s\<close> is the state of the generator when the
  call starts, and the tables.\<close>

definition create_prescription ::
  "'g random_module \<Rightarrow> string \<Rightarrow> BasePrescription \<Rightarrow> string \<Rightarrow> string \<Rightarrow> string option
     \<Rightarrow> 'g \<times> db \<Rightarrow> string \<times> 'g \<times> db" where
  "create_prescription rnd uuid4 prescription institution_id username created_by_institution_id s =
     (let d = snd s;
          prescription_id = uuid4;
          g = rnd_seed rnd 1;
          drawn = rnd_randint rnd g 0 99999999;
          short_code = fst drawn;
          g = snd drawn
      in (prescription_id, g,
          d\<lparr>tbl_repeat_prescriptions := tbl_repeat_prescriptions d @
            [\<lparr>rp_prescription_id = prescription_id,
              rp_medication_id = Some (bp_medication_id prescription),
              rp_time_statement = Some (bp_time_statement prescription),
              rp_institution_id = institution_id,
              rp_created_by_institution_id = created_by_institution_id,
              rp_username = username,
              rp_approved_at = None, rp_issued_at = None, rp_issued_by = None,
              rp_short_code = short_code\<rparr>]\<rparr>))"

definition get_prescription :: "db \<Rightarrow> string \<Rightarrow> repeat_prescriptions_row option" where
  "get_prescription d prescription_id =
     find (\<lambda>rp. rp_prescription_id rp = prescription_id) (tbl_repeat_prescriptions d)"

text \<open>\<open>update_prescription\<close> reads three attributes of the model it is given: the
  identifier and the two values to store.\<close>

definition update_prescription :: "string \<Rightarrow> string option \<Rightarrow> string option \<Rightarrow> db \<Rightarrow> db" where
  "update_prescription prescription_id time_statement medication_id d =
     d\<lparr>tbl_repeat_prescriptions :=
         map (\<lambda>rp. if rp_prescription_id rp = prescription_id
                    then rp\<lparr>rp_time_statement := time_statement, rp_medication_id := medication_id\<rparr>
                    else rp)
           (tbl_repeat_prescriptions d)\<rparr>"

text \<open>\<open>delete_prescription\<close> answers \<open>False\<close> only when the statement raises, which
  it does when the connection to the database fails; the model has no such failure.\<close>

definition delete_prescription :: "string \<Rightarrow> db \<Rightarrow> bool \<times> db" where
  "delete_prescription prescription_id d =
     (True, d\<lparr>tbl_repeat_prescriptions :=
                filter (\<lambda>rp. rp_prescription_id rp \<noteq> prescription_id) (tbl_repeat_prescriptions d)\<rparr>)"

definition mark_prescription_approved :: "timestamp \<Rightarrow> string \<Rightarrow> db \<Rightarrow> db" where
  "mark_prescription_approved now prescription_id d =
     (let timestamp = now in
      d\<lparr>tbl_repeat_prescriptions :=
          map (\<lambda>rp. if rp_prescription_id rp = prescription_id
                     then rp\<lparr>rp_approved_at := Some timestamp\<rparr> else rp)
            (tbl_repeat_prescriptions d)\<rparr>)"

definition mark_prescription_issued :: "timestamp \<Rightarrow> string \<Rightarrow> string \<Rightarrow> db \<Rightarrow> db" where
  "mark_prescription_issued now prescription_id issuing_user d =
     (let timestamp = now in
      d\<lparr>tbl_repeat_prescriptions :=
          map (\<lambda>rp. if rp_prescription_id rp = prescription_id
                     then rp\<lparr>rp_issued_at := Some timestamp, rp_issued_by := Some issuing_user\<rparr>
                     else rp)
            (tbl_repeat_prescriptions d)\<rparr>)"

text \<open>\<open>get_bloodwork_request_for_prescription\<close>: the first row of the full join of
  \<open>repeat_prescriptions\<close> and \<open>blood_requests\<close> on the prescription identifier,
  restricted to the prescription. A prescription without a request gives one row with
  \<open>request_id\<close> and \<open>completed_at\<close> null.\<close>

record bloodwork_details =
  bd_prescription_id :: string
  bd_request_id :: "string option"
  bd_completed_at :: "timestamp option"

definition joined_requests :: "db \<Rightarrow> repeat_prescriptions_row \<Rightarrow> bloodwork_details list" where
  "joined_requests d rp =
     (case filter (\<lambda>br. br_prescription_id br = rp_prescription_id rp) (tbl_blood_requests d) of
        [] \<Rightarrow> [\<lparr>bd_prescription_id = rp_prescription_id rp, bd_request_id = None,
                 bd_completed_at = None\<rparr>]
      | brs \<Rightarrow> map (\<lambda>br. \<lparr>bd_prescription_id = rp_prescription_id rp,
                            bd_request_id = Some (br_request_id br),
                            bd_completed_at = br_completed_at br\<rparr>) brs)"

definition get_bloodwork_request_for_prescription :: "db \<Rightarrow> string \<Rightarrow> bloodwork_details option" where
  "get_bloodwork_request_for_prescription d prescription_id =
     (case concat (map (joined_requests d)
             (filter (\<lambda>rp. rp_prescription_id rp = prescription_id) (tbl_repeat_prescriptions d))) of
        [] \<Rightarrow> None
      | row # _ \<Rightarrow> Some row)"

text \<open>\<open>bloodwork_queries.create_bloodwork_request\<close>; \<open>completed_at\<close> is not named by
  the \<open>INSERT\<close> and starts as \<open>NULL\<close>.\<close>

definition create_bloodwork_request ::
  "string \<Rightarrow> string \<Rightarrow> string option \<Rightarrow> MedicationBloodworkTypes \<Rightarrow> db \<Rightarrow> string \<times> db" where
  "create_bloodwork_request uuid4 prescription_id practice_id request_type d =
     (let request_id = uuid4 in
      (request_id,
       d\<lparr>tbl_blood_requests := tbl_blood_requests d @
           [\<lparr>br_request_id = request_id, br_request_type = request_type,
             br_prescription_id = prescription_id, br_practice_id = practice_id,
             br_completed_at = None\<rparr>]\<rparr>))"

section \<open>The prescription workflow (\<open>routers/prescriptions.py\<close>)\<close>

definition check_medication :: "db \<Rightarrow> string \<Rightarrow> error + Medication" where
  "check_medication d medication_id =
     (case get_medication_by_id d medication_id of
        None \<Rightarrow> Inl (HTTPException 400 ''Medication invalid.'')
      | Some medication \<Rightarrow> Inr medication)"

text \<open>\<open>time_parser\<close> is \<open>str(TimeRecurrenceParser().parse(s))\<close>: the parsed
  statement, or the exception the parser raises (\<open>ISO8601SyntaxError\<close> for a string
  that is no recurrence, \<open>BadInputError\<close> for one whose fields are out of range). The
  source catches \<open>ISO8601SyntaxError\<close> only.\<close>

definition check_iso8601_time_statement :: "(string \<Rightarrow> error + string) \<Rightarrow> string \<Rightarrow> error + string" where
  "check_iso8601_time_statement time_parser time_statement =
     (case time_parser time_statement of
        Inl e \<Rightarrow>
          if e = ISO8601SyntaxError then Inl (HTTPException 400 ''Time statement invalid.'')
          else Inl e
      | Inr parsed_statement \<Rightarrow> Inr parsed_statement)"

text \<open>\<open>create_user_repeat_prescription\<close>, after its permission dependency has produced
  \<open>requesting_user\<close>. \<open>uuid_p\<close> and \<open>uuid_r\<close> are the identifiers drawn for the
  prescription and for the bloodwork request.\<close>

definition create_user_repeat_prescription ::
  "(string \<Rightarrow> error + string) \<Rightarrow> 'g random_module \<Rightarrow> string \<Rightarrow> string
     \<Rightarrow> string \<Rightarrow> BasePrescription \<Rightarrow> User
     \<Rightarrow> 'g \<times> db \<Rightarrow> (error + PrescriptionCreatedResponse) \<times> 'g \<times> db" where
  "create_user_repeat_prescription time_parser rnd uuid_p uuid_r username prescription requesting_user s =
     (case get_user_by_username (snd s) username of
        None \<Rightarrow> (Inl (HTTPException 400 ''User not found.''), s)
      | Some user \<Rightarrow>
          if get_medical_practice (snd s) (u_institution_id requesting_user) = None
          then (Inl (HTTPException 400 ''Institution invalid.''), s)
          else
            (case get_users_pharmacy_assignment (snd s) (u_username user) of
               None \<Rightarrow> (Inl (HTTPException 400 ''Pharmacy assignment not found.''), s)
             | Some pharmacy_assignment \<Rightarrow>
                 if get_medical_practice (snd s) (u_institution_id user) = None
                 then (Inl (HTTPException 400 ''User does not belong to medical practice.''), s)
                 else
                   (case check_medication (snd s) (bp_medication_id prescription) of
                      Inl e \<Rightarrow> (Inl e, s)
                    | Inr medication \<Rightarrow>
                        (case check_iso8601_time_statement time_parser (bp_time_statement prescription) of
                           Inl e \<Rightarrow> (Inl e, s)
                         | Inr recurrance_string \<Rightarrow>
                             (let prescription = prescription\<lparr>bp_time_statement := recurrance_string\<rparr>;
                                  created = create_prescription rnd uuid_p prescription
                                    (pa_institution_id pharmacy_assignment) (u_username user)
                                    (u_institution_id requesting_user) s;
                                  prescription_id = fst created
                              in case m_bloodwork_requirement medication of
                                   None \<Rightarrow>
                                     (Inr \<lparr>cr_prescription_id = prescription_id,
                                           cr_bloodwork_request_id = None\<rparr>, snd created)
                                 | Some requirement \<Rightarrow>
                                     (let requested = create_bloodwork_request uuid_r prescription_id
                                            (u_institution_id requesting_user) requirement
                                            (snd (snd created))
                                      in (Inr \<lparr>cr_prescription_id = prescription_id,
                                                cr_bloodwork_request_id = Some (fst requested)\<rparr>,
                                          fst (snd created), snd requested)))))))"

text \<open>\<open>_get_prescription\<close>, the dependency that loads the prescription of the path:
  404 when there is no row; \<open>Prescription(**row)\<close> refuses a row whose
  \<open>medication_id\<close> or \<open>time_statement\<close> is null. The syntax check of identifiers
  (\<open>check_uuid\<close>, \<open>UUIDPathChecker\<close>) is not part of the model.\<close>

definition Prescription_of :: "repeat_prescriptions_row \<Rightarrow> error + Prescription" where
  "Prescription_of rp =
     (case rp_medication_id rp of
        None \<Rightarrow> Inl ValidationError
      | Some medication_id \<Rightarrow>
          (case rp_time_statement rp of
             None \<Rightarrow> Inl ValidationError
           | Some time_statement \<Rightarrow>
               Inr \<lparr>pr_prescription_id = rp_prescription_id rp,
                    pr_medication_id = medication_id,
                    pr_time_statement = time_statement,
                    pr_institution_id = rp_institution_id rp,
                    pr_username = rp_username rp,
                    pr_approved_at = rp_approved_at rp,
                    pr_issued_at = rp_issued_at rp,
                    pr_issued_by = rp_issued_by rp,
                    pr_short_code = rp_short_code rp\<rparr>))"

definition dep_get_prescription :: "db \<Rightarrow> string \<Rightarrow> error + Prescription" where
  "dep_get_prescription d prescription_id =
     (case get_prescription d prescription_id of
        None \<Rightarrow> Inl (HTTPException 404 ''Prescription not found.'')
      | Some prescription \<Rightarrow> Prescription_of prescription)"

text \<open>\<open>modify_existing_prescription\<close>. Reading an attribute of the request gives
  \<open>None\<close> for a field that is unset or null; \<open>copy(update=dict(exclude_unset=True))\<close>
  overwrites exactly the fields that are set.\<close>

definition field_attr :: "'a request_field \<Rightarrow> 'a option" where
  "field_attr f = (case f of Unset \<Rightarrow> None | Given v \<Rightarrow> v)"

definition copy_update :: "'a \<Rightarrow> 'a request_field \<Rightarrow> 'a option" where
  "copy_update old f = (case f of Unset \<Rightarrow> Some old | Given v \<Rightarrow> v)"

definition modify_existing_prescription ::
  "(string \<Rightarrow> error + string) \<Rightarrow> PrescriptionModifyRequest \<Rightarrow> Prescription \<Rightarrow> db
     \<Rightarrow> (error + string) \<times> db" where
  "modify_existing_prescription time_parser prescription_changes prescription d =
     (case (case field_attr (mr_medication_id prescription_changes) of
              None \<Rightarrow> None
            | Some medication_id \<Rightarrow>
                (case check_medication d medication_id of Inl e \<Rightarrow> Some e | Inr _ \<Rightarrow> None)) of
        Some e \<Rightarrow> (Inl e, d)
      | None \<Rightarrow>
          (case (case field_attr (mr_time_statement prescription_changes) of
                   None \<Rightarrow> None
                 | Some time_statement \<Rightarrow>
                     (case check_iso8601_time_statement time_parser time_statement of
                        Inl e \<Rightarrow> Some e | Inr _ \<Rightarrow> None)) of
             Some e \<Rightarrow> (Inl e, d)
           | None \<Rightarrow>
               (Inr (pr_prescription_id prescription),
                update_prescription (pr_prescription_id prescription)
                  (copy_update (pr_time_statement prescription) (mr_time_statement prescription_changes))
                  (copy_update (pr_medication_id prescription) (mr_medication_id prescription_changes))
                  d)))"

text \<open>\<open>mark_prescription_as_approved\<close>. Indexing the result of the query raises
  \<open>TypeError\<close> when the query found no row.\<close>

definition mark_prescription_as_approved ::
  "timestamp \<Rightarrow> Prescription \<Rightarrow> db \<Rightarrow> (error + unit) \<times> db" where
  "mark_prescription_as_approved now prescription d =
     (if pr_approved_at prescription \<noteq> None
      then (Inl (HTTPException 400 ''Prescription already approved.''), d)
      else
        (case get_bloodwork_request_for_prescription d (pr_prescription_id prescription) of
           None \<Rightarrow> (Inl TypeError, d)
         | Some bloodwork_request_details \<Rightarrow>
             if bd_request_id bloodwork_request_details \<noteq> None
                \<and> bd_completed_at bloodwork_request_details = None
             then (Inl (HTTPException 400 ''Bloodwork incomplete.''), d)
             else (Inr (), mark_prescription_approved now (pr_prescription_id prescription) d)))"

text \<open>\<open>mark_prescription_as_issued\<close>, after its permission dependency has produced
  \<open>issuing_user\<close>.\<close>

definition mark_prescription_as_issued ::
  "timestamp \<Rightarrow> Prescription \<Rightarrow> User \<Rightarrow> db \<Rightarrow> (error + unit) \<times> db" where
  "mark_prescription_as_issued now prescription issuing_user d =
     (if Some (pr_institution_id prescription) \<noteq> u_institution_id issuing_user
      then (Inl (HTTPException 403 ''Wrong institution.''), d)
      else if pr_issued_at prescription \<noteq> None \<or> pr_issued_by prescription \<noteq> None
      then (Inl (HTTPException 400 ''Prescription already issued.''), d)
      else if pr_approved_at prescription = None
      then (Inl (HTTPException 400 ''Prescription not approved for issue.''), d)
      else (Inr (),
            mark_prescription_issued now (pr_prescription_id prescription)
              (u_username issuing_user) d))"

definition delete_user_repeat_prescription :: "Prescription \<Rightarrow> db \<Rightarrow> (error + unit) \<times> db" where
  "delete_user_repeat_prescription prescription d =
     (let deleted = delete_prescription (pr_prescription_id prescription) d in
      if fst deleted then (Inr (), snd deleted)
      else (Inl (HTTPException 500 ''Lost connection to the database''), snd deleted))"

text \<open>The routes: the framework resolves \<open>Depends(_get_prescription)\<close> from the path
  and then calls the handler.\<close>

definition with_prescription ::
  "db \<Rightarrow> string \<Rightarrow> (Prescription \<Rightarrow> db \<Rightarrow> (error + 'a) \<times> db) \<Rightarrow> (error + 'a) \<times> db" where
  "with_prescription d prescription_id handler =
     (case dep_get_prescription d prescription_id of
        Inl e \<Rightarrow> (Inl e, d)
      | Inr prescription \<Rightarrow> handler prescription d)"

section \<open>Completing a bloodwork request (\<open>routers/bloodwork_requests.py\<close>)\<close>

text \<open>\<open>models/bloodwork.py\<close>: \<open>BloodworkRequest(**request)\<close> refuses a row without
  \<open>practice_id\<close>.\<close>

record BloodworkRequest =
  bw_request_id :: string
  bw_practice_id :: string
  bw_prescription_id :: string
  bw_request_type :: MedicationBloodworkTypes
  bw_completed_at :: "timestamp option"

definition BloodworkRequest_of :: "blood_requests_row \<Rightarrow> error + BloodworkRequest" where
  "BloodworkRequest_of request =
     (case br_practice_id request of
        None \<Rightarrow> Inl ValidationError
      | Some practice_id \<Rightarrow>
          Inr \<lparr>bw_request_id = br_request_id request, bw_practice_id = practice_id,
               bw_prescription_id = br_prescription_id request,
               bw_request_type = br_request_type request,
               bw_completed_at = br_completed_at request\<rparr>)"

definition get_request_by_id :: "db \<Rightarrow> string \<Rightarrow> blood_requests_row option" where
  "get_request_by_id d request_id =
     find (\<lambda>br. br_request_id br = request_id) (tbl_blood_requests d)"

text \<open>\<open>mark_bloodwork_request_complete\<close> stamps the request with
  \<open>datetime.utcnow()\<close>, here \<open>utcnow\<close>; the prescriptions are stamped with
  \<open>datetime.now()\<close>, another clock.\<close>

definition mark_bloodwork_request_complete :: "timestamp \<Rightarrow> string \<Rightarrow> db \<Rightarrow> db" where
  "mark_bloodwork_request_complete utcnow request_id d =
     (let completed_at = utcnow in
      d\<lparr>tbl_blood_requests :=
          map (\<lambda>br. if br_request_id br = request_id
                     then br\<lparr>br_completed_at := Some completed_at\<rparr> else br)
            (tbl_blood_requests d)\<rparr>)"

definition REQUEST_NOT_FOUND_EXCEPTION :: error where
  "REQUEST_NOT_FOUND_EXCEPTION = HTTPException 404 ''Bloodwork request not found.''"

text \<open>\<open>mark_request_complete\<close>, after its permission dependency has produced
  \<open>user\<close>.\<close>

definition mark_request_complete ::
  "timestamp \<Rightarrow> string \<Rightarrow> User \<Rightarrow> db \<Rightarrow> (error + unit) \<times> db" where
  "mark_request_complete utcnow request_id user d =
     (case get_request_by_id d request_id of
        None \<Rightarrow> (Inl REQUEST_NOT_FOUND_EXCEPTION, d)
      | Some request \<Rightarrow>
          (case BloodworkRequest_of request of
             Inl e \<Rightarrow> (Inl e, d)
           | Inr bloodwork_request \<Rightarrow>
               if u_institution_id user \<noteq> Some (bw_practice_id bloodwork_request)
               then (Inl REQUEST_NOT_FOUND_EXCEPTION, d)
               else if bw_completed_at bloodwork_request \<noteq> None
               then (Inl (HTTPException 400 ''Bloodwork request already completed.''), d)
               else (Inr (),
                     mark_bloodwork_request_complete utcnow (bw_request_id bloodwork_request) d)))"

section \<open>Ordered preconditions\<close>

text \<open>A list of preconditions, each with the error that declines the request when it
  does not hold, checked in order: the first one that fails decides.\<close>

fun first_failure :: "(bool \<times> 'e) list \<Rightarrow> 'e option" where
  "first_failure [] = None"
| "first_failure (c # cs) = (if fst c then first_failure cs else Some (snd c))"

text \<open>The preconditions of create, in the order the specification lists them.\<close>

definition create_preconditions ::
  "(string \<Rightarrow> error + string) \<Rightarrow> db \<Rightarrow> string \<Rightarrow> BasePrescription \<Rightarrow> User \<Rightarrow> (bool \<times> error) list" where
  "create_preconditions time_parser d username prescription requesting_user =
     [(get_user_by_username d username \<noteq> None,
         HTTPException 400 ''User not found.''),
      (get_medical_practice d (u_institution_id requesting_user) \<noteq> None,
         HTTPException 400 ''Institution invalid.''),
      (get_users_pharmacy_assignment d username \<noteq> None,
         HTTPException 400 ''Pharmacy assignment not found.''),
      ((case get_user_by_username d username of
          None \<Rightarrow> False
        | Some user \<Rightarrow> get_medical_practice d (u_institution_id user) \<noteq> None),
         HTTPException 400 ''User does not belong to medical practice.''),
      (get_medication_by_id d (bp_medication_id prescription) \<noteq> None,
         HTTPException 400 ''Medication invalid.''),
      (\<not> isl (time_parser (bp_time_statement prescription)),
         HTTPException 400 ''Time statement invalid.'')]"

section \<open>Runs of the prescription workflow\<close>

text \<open>The five operations on prescriptions and the completion of a bloodwork request,
  with what each request carries. The permission dependency of a route only rejects
  requests, so the runs below, which leave it out, include every run of the service;
  \<open>Create\<close>, \<open>Issue\<close> and \<open>Complete\<close> carry the user the dependency would have
  produced, \<open>Create\<close> the two identifiers drawn and \<open>Complete\<close> the reading of the
  clock of \<open>utcnow\<close>.\<close>

datatype op =
    Create string BasePrescription User string string
  | Approve string
  | Issue string User
  | Modify string PrescriptionModifyRequest
  | Delete string
  | Complete string User timestamp

definition step ::
  "(string \<Rightarrow> error + string) \<Rightarrow> 'g random_module \<Rightarrow> timestamp \<Rightarrow> op \<Rightarrow> 'g \<times> db \<Rightarrow> 'g \<times> db" where
  "step time_parser rnd now operation s =
     (case operation of
        Create username prescription requesting_user uuid_p uuid_r \<Rightarrow>
          snd (create_user_repeat_prescription time_parser rnd uuid_p uuid_r username prescription
                 requesting_user s)
      | Approve prescription_id \<Rightarrow>
          (fst s, snd (with_prescription (snd s) prescription_id (mark_prescription_as_approved now)))
      | Issue prescription_id issuing_user \<Rightarrow>
          (fst s, snd (with_prescription (snd s) prescription_id
                         (\<lambda>prescription. mark_prescription_as_issued now prescription issuing_user)))
      | Modify prescription_id prescription_changes \<Rightarrow>
          (fst s, snd (with_prescription (snd s) prescription_id
                         (modify_existing_prescription time_parser prescription_changes)))
      | Delete prescription_id \<Rightarrow>
          (fst s, snd (with_prescription (snd s) prescription_id delete_user_repeat_prescription))
      | Complete request_id user utcnow \<Rightarrow>
          (fst s, snd (mark_request_complete utcnow request_id user (snd s))))"

text \<open>A run is a list of requests, each with the reading of the clock of \<open>now\<close> when
  it is served.\<close>

fun run ::
  "(string \<Rightarrow> error + string) \<Rightarrow> 'g random_module \<Rightarrow> (timestamp \<times> op) list \<Rightarrow> 'g \<times> db \<Rightarrow> 'g \<times> db" where
  "run time_parser rnd [] s = s"
| "run time_parser rnd (e # es) s = run time_parser rnd es (step time_parser rnd (fst e) (snd e) s)"

text \<open>The identifiers \<open>uuid4()\<close> draws for the prescriptions of a run.\<close>

fun created_ids :: "(timestamp \<times> op) list \<Rightarrow> string list" where
  "created_ids [] = []"
| "created_ids (e # es) =
     (case snd e of
        Create username prescription requesting_user uuid_p uuid_r \<Rightarrow> uuid_p # created_ids es
      | _ \<Rightarrow> created_ids es)"

text \<open>The lifecycle invariant of a row of \<open>repeat_prescriptions\<close>.\<close>

definition lifecycle_ok :: "repeat_prescriptions_row \<Rightarrow> bool" where
  "lifecycle_ok rp =
     ((rp_issued_at rp = None) = (rp_issued_by rp = None)
      \<and> (case rp_issued_at rp of
           None \<Rightarrow> True
         | Some issued \<Rightarrow>
             (case rp_approved_at rp of None \<Rightarrow> False | Some approved \<Rightarrow> approved \<le> issued)))"

text \<open>What the proof of the lifecycle invariant carries along a run: every row is well formed,
  no approval lies after the clock, and the identifiers are pairwise different and among
  those drawn so far.\<close>

definition approved_by :: "timestamp \<Rightarrow> repeat_prescriptions_row \<Rightarrow> bool" where
  "approved_by t rp = (case rp_approved_at rp of None \<Rightarrow> True | Some a \<Rightarrow> a \<le> t)"

definition run_inv :: "timestamp \<Rightarrow> string set \<Rightarrow> db \<Rightarrow> bool" where
  "run_inv t used d =
     (list_all lifecycle_ok (tbl_repeat_prescriptions d)
      \<and> list_all (approved_by t) (tbl_repeat_prescriptions d)
      \<and> distinct (map rp_prescription_id (tbl_repeat_prescriptions d))
      \<and> set (map rp_prescription_id (tbl_repeat_prescriptions d)) \<subseteq> used)"

text \<open>What the runs keep for the bloodwork requests: no two requests are for the same
  prescription, and each is for an identifier drawn so far.\<close>

definition req_inv :: "string set \<Rightarrow> db \<Rightarrow> bool" where
  "req_inv used d =
     (distinct (map br_prescription_id (tbl_blood_requests d))
      \<and> set (map br_prescription_id (tbl_blood_requests d)) \<subseteq> used)"

section \<open>Role and permission administration (\<open>routers/roles.py\<close>, \<open>routers/users.py\<close>)\<close>

text \<open>The role routes receive \<open>uuid.UUID\<close> objects and store \<open>str(uuid)\<close>. Such an
  object is always truthy, so \<open>any\<close> over a generator of them asks whether there is
  one.\<close>

datatype UUID = UUID (uuid_str: string)

definition any_uuid :: "UUID list \<Rightarrow> bool" where
  "any_uuid xs = (xs \<noteq> [])"

definition get_roles :: "db \<Rightarrow> Role list" where
  "get_roles d = tbl_roles d"

definition get_role_by_id :: "db \<Rightarrow> UUID \<Rightarrow> Role option" where
  "get_role_by_id d role_id = find (\<lambda>r. r_role_id r = uuid_str role_id) (tbl_roles d)"

definition get_all_permissions :: "db \<Rightarrow> Permission list" where
  "get_all_permissions d = tbl_permissions d"

definition add_permission_to_role :: "UUID \<Rightarrow> UUID \<Rightarrow> db \<Rightarrow> db" where
  "add_permission_to_role role_id permission_id d =
     d\<lparr>tbl_permissions_by_role := tbl_permissions_by_role d @
         [\<lparr>pbr_permission_id = uuid_str permission_id, pbr_role_id = uuid_str role_id\<rparr>]\<rparr>"

definition remove_existing_permissions_for_role :: "UUID \<Rightarrow> db \<Rightarrow> db" where
  "remove_existing_permissions_for_role role_id d =
     d\<lparr>tbl_permissions_by_role :=
         filter (\<lambda>pbr. pbr_role_id pbr \<noteq> uuid_str role_id) (tbl_permissions_by_role d)\<rparr>"

definition add_role_to_user :: "string \<Rightarrow> UUID \<Rightarrow> db \<Rightarrow> db" where
  "add_role_to_user username role_id d =
     d\<lparr>tbl_role_by_user := tbl_role_by_user d @
         [\<lparr>rbu_role_id = uuid_str role_id, rbu_username = username\<rparr>]\<rparr>"

definition remove_existing_roles_for_user :: "string \<Rightarrow> db \<Rightarrow> db" where
  "remove_existing_roles_for_user username d =
     d\<lparr>tbl_role_by_user := filter (\<lambda>rbu. rbu_username rbu \<noteq> username) (tbl_role_by_user d)\<rparr>"

definition check_role_exists :: "db \<Rightarrow> UUID \<Rightarrow> error + UUID" where
  "check_role_exists d role_id =
     (case get_role_by_id d role_id of
        None \<Rightarrow> Inl (HTTPException 400 ''Role not found.'')
      | Some role \<Rightarrow> Inr role_id)"

definition check_permissions_exists :: "db \<Rightarrow> UUID list \<Rightarrow> error + UUID list" where
  "check_permissions_exists d permissions =
     (let valid_permissions = map p_permission_id (get_all_permissions d);
          permissions_invalid =
            any_uuid (filter (\<lambda>p. uuid_str p \<notin> set valid_permissions) permissions)
      in if permissions_invalid
         then Inl (HTTPException 400 ''One or more permissions not valid.'')
         else Inr permissions)"

text \<open>\<open>add_permissions_to_role\<close>: the handler, and the route with its two
  dependencies.\<close>

definition add_permissions_to_role :: "UUID \<Rightarrow> UUID list \<Rightarrow> db \<Rightarrow> (error + unit) \<times> db" where
  "add_permissions_to_role role_id permissions d =
     (Inr (),
      foldl (\<lambda>d permission. add_permission_to_role role_id permission d)
        (remove_existing_permissions_for_role role_id d) permissions)"

definition route_add_permissions_to_role :: "db \<Rightarrow> UUID \<Rightarrow> UUID list \<Rightarrow> (error + unit) \<times> db" where
  "route_add_permissions_to_role d role_id permissions =
     (case check_role_exists d role_id of
        Inl e \<Rightarrow> (Inl e, d)
      | Inr role_id \<Rightarrow>
          (case check_permissions_exists d permissions of
             Inl e \<Rightarrow> (Inl e, d)
           | Inr permissions \<Rightarrow> add_permissions_to_role role_id permissions d))"

definition check_roles_exist :: "db \<Rightarrow> UUID list \<Rightarrow> error + UUID list" where
  "check_roles_exist d roles =
     (let valid_roles = map r_role_id (get_roles d);
          roles_invalid = any_uuid (filter (\<lambda>r. uuid_str r \<notin> set valid_roles) roles)
      in if roles_invalid
         then Inl (HTTPException 400 ''One or more roles not found.'')
         else Inr roles)"

definition assign_roles :: "string \<Rightarrow> UUID list \<Rightarrow> db \<Rightarrow> (error + unit) \<times> db" where
  "assign_roles username roles d =
     (Inr (),
      foldl (\<lambda>d role. add_role_to_user username role d)
        (remove_existing_roles_for_user username d) roles)"

definition route_assign_roles :: "db \<Rightarrow> string \<Rightarrow> UUID list \<Rightarrow> (error + unit) \<times> db" where
  "route_assign_roles d username roles =
     (case check_roles_exist d roles of
        Inl e \<Rightarrow> (Inl e, d)
      | Inr roles \<Rightarrow> assign_roles username roles d)"

text \<open>The edges of a role and of a user, as sets.\<close>

definition role_permissions :: "db \<Rightarrow> string \<Rightarrow> string set" where
  "role_permissions d role_id =
     set (map pbr_permission_id (filter (\<lambda>pbr. pbr_role_id pbr = role_id) (tbl_permissions_by_role d)))"

definition user_roles :: "db \<Rightarrow> string \<Rightarrow> string set" where
  "user_roles d username =
     set (map rbu_role_id (filter (\<lambda>rbu. rbu_username rbu = username) (tbl_role_by_user d)))"

section \<open>Creating institutions (\<open>routers/pharmacies.py\<close>, \<open>routers/medical_practices.py\<close>)\<close>

text \<open>The \<open>INSERT\<close> of \<open>create_pharmacy\<close> and \<open>create_medical_practice\<close>. The handlers
  catch \<open>UniqueViolation\<close> and report that an institution of that name exists: the
  name is unique in table \<open>institutions\<close>.\<close>

definition insert_institution ::
  "string \<Rightarrow> InstitutionTypes \<Rightarrow> BaseInstitution \<Rightarrow> db \<Rightarrow> (error + string) \<times> db" where
  "insert_institution uuid4 institution_type institution d =
     (if list_ex (\<lambda>i. bi_name (i_details i) = bi_name institution) (tbl_institutions d)
      then (Inl UniqueViolation, d)
      else (Inr uuid4,
            d\<lparr>tbl_institutions := tbl_institutions d @
                [\<lparr>i_institution_id = uuid4, i_institution_type = institution_type,
                  i_details = institution\<rparr>]\<rparr>))"

definition create_pharmacy :: "string \<Rightarrow> BaseInstitution \<Rightarrow> db \<Rightarrow> (error + string) \<times> db" where
  "create_pharmacy uuid4 pharmacy d = insert_institution uuid4 PHARMACY pharmacy d"

definition create_medical_practice :: "string \<Rightarrow> BaseInstitution \<Rightarrow> db \<Rightarrow> (error + string) \<times> db" where
  "create_medical_practice uuid4 medical_practice d =
     insert_institution uuid4 MEDICAL_PRACTICE medical_practice d"

definition delete_pharmacy :: "string \<Rightarrow> db \<Rightarrow> db" where
  "delete_pharmacy pharmacy_id d =
     d\<lparr>tbl_institutions :=
         filter (\<lambda>i. \<not> (i_institution_id i = pharmacy_id \<and> i_institution_type i = PHARMACY))
           (tbl_institutions d)\<rparr>"

text \<open>\<open>user_queries.create_pending_user\<close>: the username is the key of table
  \<open>pending_users\<close>, a second row with it raises \<open>UniqueViolation\<close>.\<close>

definition create_pending_user :: "BaseUser \<Rightarrow> string \<Rightarrow> db \<Rightarrow> (error + unit) \<times> db" where
  "create_pending_user user institution_id d =
     (if list_ex (\<lambda>pu. pu_username pu = bu_username user) (tbl_pending_users d)
      then (Inl UniqueViolation, d)
      else (Inr (),
            d\<lparr>tbl_pending_users := tbl_pending_users d @
                [\<lparr>pu_username = bu_username user, pu_name = bu_name user,
                  pu_email = bu_email user, pu_institution_id = institution_id\<rparr>]\<rparr>))"

definition create_registration_token ::
  "string \<Rightarrow> string \<Rightarrow> RegistrationType \<Rightarrow> db \<Rightarrow> registration_token_row \<times> db" where
  "create_registration_token uuid4 username registration_type d =
     (let token = \<lparr>rt_token_id = uuid4, rt_token_type = registration_type, rt_username = username\<rparr>
      in (token, d\<lparr>tbl_registration_tokens := tbl_registration_tokens d @ [token]\<rparr>))"

definition send_mail :: "string \<Rightarrow> string \<Rightarrow> string \<Rightarrow> string \<Rightarrow> db \<Rightarrow> db" where
  "send_mail email name template_id url d =
     d\<lparr>sent_mail := sent_mail d @
         [\<lparr>ml_email = email, ml_name = name, ml_template_id = template_id, ml_url = url\<rparr>]\<rparr>"

text \<open>\<open>common_functions\<close>. \<open>front_end_base_url\<close> is the configured
  \<open>FRONT_END_BASE_URL\<close>.\<close>

definition handle_create_pending_user :: "BaseUser \<Rightarrow> string \<Rightarrow> db \<Rightarrow> (error + unit) \<times> db" where
  "handle_create_pending_user user institution_id d =
     (case create_pending_user user institution_id d of
        (Inl e, d') \<Rightarrow>
          (if e = UniqueViolation then (Inl (HTTPException 400 ''User already exists''), d')
           else (Inl e, d'))
      | (Inr u, d') \<Rightarrow> (Inr u, d'))"

definition generate_email_template_signup_url :: "string \<Rightarrow> string \<Rightarrow> string" where
  "generate_email_template_signup_url front_end_base_url token =
     front_end_base_url @ ''/signup?token='' @ token"

definition MEDICAL_PRACTICE_SIGNUP :: string where
  "MEDICAL_PRACTICE_SIGNUP = ''d-7b78b7c37d2f4ec7b00a583276b43780''"

definition PHARMACY_SIGNUP :: string where
  "PHARMACY_SIGNUP = ''d-ad3e2c18e91246b0bf5eb76fbc7f460f''"

text \<open>\<open>create_new_medical_practice\<close>. \<open>uuid_i\<close> and \<open>uuid_t\<close> are the identifiers
  drawn for the institution and for the registration token.\<close>

definition create_new_medical_practice ::
  "string \<Rightarrow> string \<Rightarrow> string \<Rightarrow> BaseInstitution \<Rightarrow> BaseUser \<Rightarrow> db \<Rightarrow> (error + string) \<times> db" where
  "create_new_medical_practice front_end_base_url uuid_i uuid_t medical_practice master_user d =
     (case create_medical_practice uuid_i medical_practice d of
        (Inl e, d1) \<Rightarrow>
          (if e = UniqueViolation then (Inl (HTTPException 400 ''Practice already exists''), d1)
           else (Inl e, d1))
      | (Inr institution_id, d1) \<Rightarrow>
          (case handle_create_pending_user master_user institution_id d1 of
             (Inl e, d2) \<Rightarrow> (Inl e, d2)
           | (Inr u, d2) \<Rightarrow>
               (let created = create_registration_token uuid_t (bu_username master_user)
                                MEDICAL_PRACTICE_ADMINISTRATOR d2;
                    registration_token = fst created;
                    template_object = generate_email_template_signup_url front_end_base_url
                                        (rt_token_id registration_token)
                in (Inr institution_id,
                    send_mail (bu_email master_user) (bu_name master_user)
                      MEDICAL_PRACTICE_SIGNUP template_object (snd created)))))"

text \<open>\<open>create_new_pharmacy\<close>.\<close>

definition create_new_pharmacy ::
  "string \<Rightarrow> string \<Rightarrow> string \<Rightarrow> BaseInstitution \<Rightarrow> BaseUser \<Rightarrow> db \<Rightarrow> (error + string) \<times> db" where
  "create_new_pharmacy front_end_base_url uuid_i uuid_t pharmacy master_user d =
     (case create_pharmacy uuid_i pharmacy d of
        (Inl e, d1) \<Rightarrow>
          (if e = UniqueViolation
           then (Inl (HTTPException 400 ''Pharmacy already exists with that name''), d1)
           else (Inl e, d1))
      | (Inr institution_id, d1) \<Rightarrow>
          (case create_pending_user master_user institution_id d1 of
             (Inl e, d2) \<Rightarrow>
               (if e = UniqueViolation
                then (Inl (HTTPException 400 ''User already exists''),
                      delete_pharmacy institution_id d2)
                else (Inl e, d2))
           | (Inr u, d2) \<Rightarrow>
               (let created = create_registration_token uuid_t (bu_username master_user)
                                HEAD_PHARMACIST d2;
                    registration_token = fst created;
                    template_object = front_end_base_url @ ''/signup?token=''
                                        @ rt_token_id registration_token
                in (Inr institution_id,
                    send_mail (bu_email master_user) (bu_name master_user)
                      PHARMACY_SIGNUP template_object (snd created)))))"

section \<open>Example states\<close>

text \<open>A user whose only role grants one permission, the permission named by the empty
  string.\<close>

definition alice :: User where
  "alice = \<lparr>u_username = ''alice'', u_password = ''$2b$hash-of-secret'',
     u_email = ''alice@example.org'', u_name = ''Alice'', u_institution_id = Some ''practice-1''\<rparr>"

definition db_empty_name :: db where
  "db_empty_name = empty_db\<lparr>
     tbl_users := [alice],
     tbl_roles := [\<lparr>r_role_id = ''r1'', r_name = ''clerk'', r_description = ''clerk''\<rparr>],
     tbl_permissions := [\<lparr>p_permission_id = ''p1'', p_name = []\<rparr>],
     tbl_role_by_user := [\<lparr>rbu_role_id = ''r1'', rbu_username = ''alice''\<rparr>],
     tbl_permissions_by_role := [\<lparr>pbr_permission_id = ''p1'', pbr_role_id = ''r1''\<rparr>]\<rparr>"

text \<open>A decoder that accepts two tokens, one for bob and one whose subject has no row,
  and a password check that knows one hash and, as the library does, refuses a password
  with a NUL byte before it looks at the hash.\<close>

definition decode_ghost :: "string \<Rightarrow> (string \<rightharpoonup> string) option" where
  "decode_ghost tok = (if tok = ''tok'' then Some [''uid'' \<mapsto> ''ghost''] else None)"

definition decode_bob :: "string \<Rightarrow> (string \<rightharpoonup> string) option" where
  "decode_bob tok = (if tok = ''tok-bob'' then Some [''uid'' \<mapsto> ''bob''] else None)"

definition verify_secret :: "string \<Rightarrow> string \<Rightarrow> error + bool" where
  "verify_secret plain hashed =
     (if CHR 0x00 \<in> set plain then Inl PasswordValueError
      else if hashed = ''$2b$hash-of-secret'' then Inr (plain = ''secret'')
      else Inl UnknownHashError)"

definition encode_plain :: "timestamp \<Rightarrow> string \<Rightarrow> string" where
  "encode_plain expiry uid = uid"

text \<open>A practice and a pharmacy: bob is a patient of the practice and has chosen the
  pharmacy, dr works at the practice, carol at the pharmacy. One medication needs
  bloodwork, the other does not.\<close>

definition address :: "string \<Rightarrow> BaseInstitution" where
  "address n = \<lparr>bi_name = n, bi_address_line_1 = ''1 High Street'', bi_address_line_2 = ''Floor 2'',
     bi_address_line_3 = None, bi_address_line_4 = None, bi_city = ''Leeds'', bi_state = ''Yorkshire'',
     bi_postcode = ''LS1''\<rparr>"

definition bob :: User where
  "bob = \<lparr>u_username = ''bob'', u_password = ''$2b$hash-of-secret'', u_email = ''bob@example.org'',
     u_name = ''Bob'', u_institution_id = Some ''practice-1''\<rparr>"

definition dr :: User where
  "dr = \<lparr>u_username = ''dr'', u_password = ''$2b$hash-of-secret'', u_email = ''dr@example.org'',
     u_name = ''Dr'', u_institution_id = Some ''practice-1''\<rparr>"

definition carol :: User where
  "carol = \<lparr>u_username = ''carol'', u_password = ''$2b$hash-of-secret'', u_email = ''carol@example.org'',
     u_name = ''Carol'', u_institution_id = Some ''pharmacy-1''\<rparr>"

definition db_clinic :: db where
  "db_clinic = empty_db\<lparr>
     tbl_users := [bob, dr, carol],
     tbl_institutions :=
       [\<lparr>i_institution_id = ''practice-1'', i_institution_type = MEDICAL_PRACTICE,
          i_details = address ''Practice''\<rparr>,
        \<lparr>i_institution_id = ''pharmacy-1'', i_institution_type = PHARMACY,
          i_details = address ''Pharmacy''\<rparr>],
     tbl_pharmacy_assignments := [\<lparr>pa_username = ''bob'', pa_institution_id = ''pharmacy-1''\<rparr>],
     tbl_medications :=
       [\<lparr>m_medication_id = ''med-a'', m_medication_name = ''Aspirin'', m_bloodwork_requirement = None\<rparr>,
        \<lparr>m_medication_id = ''med-b'', m_medication_name = ''Warfarin'',
          m_bloodwork_requirement = Some FULL_BLOOD_COUNT\<rparr>]\<rparr>"

text \<open>A parser that knows one recurrence, raises \<open>BadInputError\<close> on a recurrence
  that starts in month 13, as the library does, and \<open>ISO8601SyntaxError\<close> on every
  other string.\<close>

definition parse_monthly :: "string \<Rightarrow> error + string" where
  "parse_monthly s =
     (if s = ''R/P1M'' then Inr ''R/P1M''
      else if s = ''R/2021-13-45/P1D'' then Inl BadInputError
      else Inl ISO8601SyntaxError)"

text \<open>A generator whose state counts the draws since the seed.\<close>

definition counting_random :: "nat random_module" where
  "counting_random = \<lparr>rnd_seed = (\<lambda>n. nat n), rnd_randint = (\<lambda>g lo hi. (min hi (lo + int g), Suc g))\<rparr>"

definition rx :: "string \<Rightarrow> timestamp option \<Rightarrow> timestamp option \<Rightarrow> string option
    \<Rightarrow> repeat_prescriptions_row" where
  "rx medication approved issued issuer =
     \<lparr>rp_prescription_id = ''rx-1'', rp_medication_id = Some medication,
      rp_time_statement = Some ''R/P1M'', rp_institution_id = ''pharmacy-1'',
      rp_created_by_institution_id = Some ''practice-1'', rp_username = ''bob'',
      rp_approved_at = approved, rp_issued_at = issued, rp_issued_by = issuer, rp_short_code = 1\<rparr>"

definition bloodwork :: "timestamp option \<Rightarrow> blood_requests_row" where
  "bloodwork completed =
     \<lparr>br_request_id = ''br-1'', br_request_type = FULL_BLOOD_COUNT, br_prescription_id = ''rx-1'',
      br_practice_id = Some ''practice-1'', br_completed_at = completed\<rparr>"

text \<open>The clinic with a registration pending for the username \<open>admin\<close>, and roles
  and permissions: bob holds the role \<open>role-1\<close>, which grants \<open>perm-1\<close>.\<close>

definition admin :: BaseUser where
  "admin = \<lparr>bu_username = ''admin'', bu_name = ''Ada'', bu_email = ''ada@example.org''\<rparr>"

definition db_pending :: db where
  "db_pending = db_clinic\<lparr>tbl_pending_users :=
     [\<lparr>pu_username = ''admin'', pu_name = ''Ada'', pu_email = ''ada@example.org'',
       pu_institution_id = ''practice-1''\<rparr>]\<rparr>"

definition db_roles :: db where
  "db_roles = db_clinic\<lparr>
     tbl_roles := [\<lparr>r_role_id = ''role-1'', r_name = ''gp'', r_description = ''GP''\<rparr>,
                   \<lparr>r_role_id = ''role-2'', r_name = ''patient'', r_description = ''Patient''\<rparr>],
     tbl_permissions := [\<lparr>p_permission_id = ''perm-1'', p_name = ''prescription.create''\<rparr>,
                         \<lparr>p_permission_id = ''perm-2'', p_name = ''prescription.approve''\<rparr>],
     tbl_role_by_user := [\<lparr>rbu_role_id = ''role-1'', rbu_username = ''bob''\<rparr>],
     tbl_permissions_by_role := [\<lparr>pbr_permission_id = ''perm-1'', pbr_role_id = ''role-1''\<rparr>]\<rparr>"

section \<open>Evaluating the examples\<close>

text \<open>The definitions the proofs about the example states unfold.\<close>

lemmas example_defs = db_clinic_def empty_db_def bob_def dr_def carol_def address_def
  parse_monthly_def counting_random_def rx_def bloodwork_def

lemmas query_defs = get_user_by_username_def get_medical_practice_def
  get_users_pharmacy_assignment_def get_medication_by_id_def get_prescription_def
  get_bloodwork_request_for_prescription_def joined_requests_def get_request_by_id_def

lemmas handler_defs = create_user_repeat_prescription_def create_prescription_def
  create_bloodwork_request_def check_medication_def check_iso8601_time_statement_def
  with_prescription_def dep_get_prescription_def Prescription_of_def
  mark_prescription_as_approved_def mark_prescription_approved_def
  mark_prescription_as_issued_def mark_prescription_issued_def
  mark_request_complete_def mark_bloodwork_request_complete_def BloodworkRequest_of_def
  REQUEST_NOT_FOUND_EXCEPTION_def step_def

section \<open>Authorization\<close>

lemma find_username:
  "find (\<lambda>u. u_username u = n) us = Some u \<Longrightarrow> u_username u = n"
  by (induction us) (auto split: if_splits)

text \<open>The effective permissions of a user are the permissions of the roles assigned to the
  user.\<close>

lemma effective_permissions_iff:
  "p \<in> set (get_user_permissions d username) =
     (\<exists>r \<in> set (tbl_roles d). \<exists>rbu \<in> set (tbl_role_by_user d).
        \<exists>pbr \<in> set (tbl_permissions_by_role d).
          rbu_username rbu = username \<and> rbu_role_id rbu = r_role_id r
          \<and> pbr_role_id pbr = r_role_id r
          \<and> p \<in> set (tbl_permissions d) \<and> p_permission_id p = pbr_permission_id pbr)"
  by (auto simp: get_user_permissions_def)

text \<open>With no required permission the checker returns the authenticated user, whatever
  they hold.\<close>

lemma PermissionsChecker_no_requirement:
  "get_current_user jwt_decode d token = Inr user
   \<Longrightarrow> PermissionsChecker jwt_decode [] d token = Inr user"
  by (simp add: PermissionsChecker_def)

text \<open>What \<open>check_user_by_permissions\<close> decides: the wildcard, or a held name that is
  required and is not the empty string.\<close>

lemma check_user_by_permissions_decides:
  "check_user_by_permissions d permissions user =
     (if ''*'' \<in> p_name ` set (get_user_permissions d (u_username user)) then Inr user
      else if \<exists>p \<in> set (get_user_permissions d (u_username user)).
                p_name p \<in> set permissions \<and> p_name p \<noteq> []
           then Inr user
           else Inl NOT_ALLOWED_EXCEPTION)"
  by (auto simp: check_user_by_permissions_def any_str_def Let_def list_ex_iff)

text \<open>C1. For an authenticated user and a required list: an empty list always succeeds;
  otherwise the wildcard among the user's effective permissions succeeds; otherwise the
  check succeeds iff some effective permission name is in the required list (any of them,
  not all), and fails with 403, which is not the 401 of authentication. The required
  lists are the literals the routes are declared with, names that are not empty; the
  same holds of the direct calls of \<open>check_user_by_permissions\<close>.\<close>

theorem authorization_any_of:
  assumes "get_current_user jwt_decode d token = Inr user"
    and "[] \<notin> set permissions"
  shows "PermissionsChecker jwt_decode permissions d token =
           (if permissions = [] then Inr user
            else if ''*'' \<in> p_name ` set (get_user_permissions d (u_username user)) then Inr user
            else if p_name ` set (get_user_permissions d (u_username user)) \<inter> set permissions \<noteq> {}
            then Inr user
            else Inl (HTTPException 403 ''Unauthorized.''))
         \<and> check_user_by_permissions d permissions user =
           (if ''*'' \<in> p_name ` set (get_user_permissions d (u_username user)) then Inr user
            else if p_name ` set (get_user_permissions d (u_username user)) \<inter> set permissions \<noteq> {}
            then Inr user
            else Inl (HTTPException 403 ''Unauthorized.''))
         \<and> HTTPException 403 ''Unauthorized.'' \<noteq> credentials_exception"
proof -
  have met: "(\<exists>p \<in> set (get_user_permissions d (u_username user)).
                p_name p \<in> set permissions \<and> p_name p \<noteq> [])
      = (p_name ` set (get_user_permissions d (u_username user)) \<inter> set permissions \<noteq> {})"
    using assms(2) by auto
  have checked: "check_user_by_permissions d permissions user =
           (if ''*'' \<in> p_name ` set (get_user_permissions d (u_username user)) then Inr user
            else if p_name ` set (get_user_permissions d (u_username user)) \<inter> set permissions \<noteq> {}
            then Inr user
            else Inl (HTTPException 403 ''Unauthorized.''))"
    unfolding check_user_by_permissions_decides met NOT_ALLOWED_EXCEPTION_def ..
  have "PermissionsChecker jwt_decode permissions d token =
          (if permissions = [] then Inr user else check_user_by_permissions d permissions user)"
    using assms(1) by (cases permissions) (simp_all add: PermissionsChecker_def)
  with checked show ?thesis
    by (simp add: credentials_exception_def)
qed

theorem authorization_any_of_witness:
  "get_current_user decode_bob db_roles (Some ''tok-bob'') = Inr bob
   \<and> map p_name (get_user_permissions db_roles ''bob'') = [''prescription.create'']
   \<and> PermissionsChecker decode_bob [] db_roles (Some ''tok-bob'') = Inr bob
   \<and> PermissionsChecker decode_bob [''prescription.approve'', ''prescription.create'']
        db_roles (Some ''tok-bob'') = Inr bob
   \<and> PermissionsChecker decode_bob [''prescription.approve''] db_roles (Some ''tok-bob'')
        = Inl (HTTPException 403 ''Unauthorized.'')
   \<and> PermissionsChecker decode_bob [''prescription.approve'']
        (db_roles\<lparr>tbl_permissions := [\<lparr>p_permission_id = ''perm-1'', p_name = ''*''\<rparr>]\<rparr>)
        (Some ''tok-bob'') = Inr bob"
proof -
  let ?star = "db_roles\<lparr>tbl_permissions := [\<lparr>p_permission_id = ''perm-1'', p_name = ''*''\<rparr>]\<rparr>"
  have user: "get_current_user decode_bob db_roles (Some ''tok-bob'') = Inr bob"
    and user': "get_current_user decode_bob ?star (Some ''tok-bob'') = Inr bob"
    by (simp_all add: get_current_user_def decode_bob_def get_user_by_username_def db_roles_def
        example_defs)
  have name: "u_username bob = ''bob''"
    by (simp add: bob_def)
  have held: "get_user_permissions db_roles ''bob''
        = [\<lparr>p_permission_id = ''perm-1'', p_name = ''prescription.create''\<rparr>]"
    and held': "get_user_permissions ?star ''bob''
        = [\<lparr>p_permission_id = ''perm-1'', p_name = ''*''\<rparr>]"
    by (simp_all add: get_user_permissions_def db_roles_def example_defs)
  have none: "PermissionsChecker decode_bob [] db_roles (Some ''tok-bob'') = Inr bob"
    using authorization_any_of [OF user, of "[]"] by simp
  have some: "PermissionsChecker decode_bob [''prescription.approve'', ''prescription.create'']
        db_roles (Some ''tok-bob'') = Inr bob"
    using authorization_any_of [OF user, of "[''prescription.approve'', ''prescription.create'']"]
    by (simp add: name held)
  have other: "PermissionsChecker decode_bob [''prescription.approve''] db_roles (Some ''tok-bob'')
        = Inl (HTTPException 403 ''Unauthorized.'')"
    using authorization_any_of [OF user, of "[''prescription.approve'']"]
    by (simp add: name held)
  have star: "PermissionsChecker decode_bob [''prescription.approve''] ?star (Some ''tok-bob'')
        = Inr bob"
    using authorization_any_of [OF user', of "[''prescription.approve'']"]
    by (simp add: name held')
  show ?thesis
    unfolding held using user none some other star by simp
qed

text \<open>The hypothesis on the required list is needed: \<open>any\<close> tests the truth value of
  the names it is given, and the empty string is false. In \<open>db_empty_name\<close> alice holds the
  permission whose name is the empty string, and a required list that holds the empty
  string is refused.\<close>

lemma check_user_by_permissions_empty_name_forbidden:
  "map p_name (get_user_permissions db_empty_name (u_username alice)) = [[]]
   \<and> [] \<in> set (map p_name (get_user_permissions db_empty_name (u_username alice))) \<inter> set [[]]
   \<and> check_user_by_permissions db_empty_name [[]] alice = Inl NOT_ALLOWED_EXCEPTION"
  by (simp add: check_user_by_permissions_def get_user_permissions_def db_empty_name_def
      empty_db_def alice_def any_str_def)

section \<open>Authentication\<close>

text \<open>C6. A token that verifies but whose subject has no row does not end in the 401
  of the other rejections: \<open>User(**None)\<close> raises \<open>TypeError\<close>, which no handler
  catches.\<close>

theorem get_current_user_unknown_subject:
  "decode_ghost ''tok'' = Some [''uid'' \<mapsto> ''ghost'']
   \<and> get_user_by_username db_empty_name ''ghost'' = None
   \<and> get_current_user decode_ghost db_empty_name (Some ''tok'') = Inl TypeError
   \<and> get_current_user decode_ghost db_empty_name (Some ''bad'') = Inl credentials_exception
   \<and> Inl TypeError \<noteq> (Inl credentials_exception :: error + User)"
  by (simp add: get_current_user_def decode_ghost_def get_user_by_username_def
      db_empty_name_def empty_db_def alice_def credentials_exception_def)

section \<open>Login\<close>

text \<open>What login answers when the password check raises nothing but
  \<open>UnknownHashError\<close>: a token exactly when the user exists and the password verifies
  against the stored hash, and the same 401 in every other case (no such user, wrong
  password, unrecognized hash).\<close>

lemma login_token_iff_verified:
  assumes "\<And>user e. get_user_by_username d username = Some user
             \<Longrightarrow> pwd_verify password (u_password user) = Inl e \<Longrightarrow> e = UnknownHashError"
  shows "login pwd_verify jwt_encode now d username password =
     (if \<exists>user. get_user_by_username d username = Some user
           \<and> pwd_verify password (u_password user) = Inr True
      then Inr \<lparr>access_token = create_token jwt_encode now username 180, token_type = ''bearer''\<rparr>
      else Inl (HTTPException 401 ''Unauthorized.''))"
proof (cases "get_user_by_username d username")
  case None
  then show ?thesis by (simp add: login_def authenticate_user_def)
next
  case (Some user)
  then have name: "u_username user = username"
    by (auto simp: get_user_by_username_def dest: find_username)
  show ?thesis
  proof (cases "pwd_verify password (u_password user)")
    case (Inl e)
    with assms[OF Some] have "e = UnknownHashError" by simp
    with Inl Some show ?thesis
      by (simp add: login_def authenticate_user_def verify_password_def)
  next
    case (Inr b)
    with Some name show ?thesis
      by (simp add: login_def authenticate_user_def verify_password_def BaseUser_of_def Let_def)
  qed
qed

lemma login_examples:
  "login verify_secret encode_plain 0 db_empty_name ''alice'' ''secret''
     = Inr \<lparr>access_token = ''alice'', token_type = ''bearer''\<rparr>
   \<and> login verify_secret encode_plain 0 db_empty_name ''alice'' ''guess''
     = Inl (HTTPException 401 ''Unauthorized.'')
   \<and> login verify_secret encode_plain 0 db_empty_name ''ghost'' ''secret''
     = Inl (HTTPException 401 ''Unauthorized.'')
   \<and> login verify_secret encode_plain 0
        (db_empty_name\<lparr>tbl_users := [alice\<lparr>u_password := ''plain''\<rparr>]\<rparr>) ''alice'' ''plain''
     = Inl (HTTPException 401 ''Unauthorized.'')"
  by (simp add: login_def authenticate_user_def verify_password_def BaseUser_of_def
      get_user_by_username_def db_empty_name_def empty_db_def alice_def
      verify_secret_def create_token_def encode_plain_def)

text \<open>An exception of the password check other than \<open>UnknownHashError\<close> leaves
  login as it is, for a user who has a row; a username without a row is answered with
  the 401 before the password is looked at.\<close>

lemma login_uncaught_error:
  assumes "get_user_by_username d username = Some user"
    and "pwd_verify password (u_password user) = Inl e"
    and "e \<noteq> UnknownHashError"
  shows "login pwd_verify jwt_encode now d username password = Inl e"
  using assms by (simp add: login_def authenticate_user_def verify_password_def)

lemma login_unknown_user:
  "get_user_by_username d username = None
   \<Longrightarrow> login pwd_verify jwt_encode now d username password = Inl (HTTPException 401 ''Unauthorized.'')"
  by (simp add: login_def authenticate_user_def)

text \<open>C10. The failure of a login is the same 401 whether the username is unknown or the
  password does not verify. The code departs from this when the password check raises
  another exception than \<open>UnknownHashError\<close>, which \<open>verify_password\<close> does not catch:
  a password with a NUL byte ends in \<open>PasswordValueError\<close> (status 500) for the
  existing user alice, and in the 401 for a username without a row.\<close>

theorem login_password_error_distinguishes_users:
  "verify_secret (''secret'' @ [CHR 0x00]) (u_password alice) = Inl PasswordValueError
   \<and> get_user_by_username db_empty_name ''alice'' = Some alice
   \<and> get_user_by_username db_empty_name ''ghost'' = None
   \<and> login verify_secret encode_plain 0 db_empty_name ''alice'' (''secret'' @ [CHR 0x00])
       = Inl PasswordValueError
   \<and> login verify_secret encode_plain 0 db_empty_name ''ghost'' (''secret'' @ [CHR 0x00])
       = Inl (HTTPException 401 ''Unauthorized.'')
   \<and> Inl PasswordValueError \<noteq> (Inl (HTTPException 401 ''Unauthorized.'') :: error + token_response)"
  by (simp add: login_def authenticate_user_def verify_password_def
      get_user_by_username_def db_empty_name_def empty_db_def alice_def verify_secret_def)

section \<open>The lifecycle invariant\<close>

lemma find_filter: "find P xs = Some x \<Longrightarrow> \<exists>ys. filter P xs = x # ys"
  by (induction xs) (auto split: if_splits)

lemma find_map_upd:
  "find (\<lambda>r. k r = a) xs = Some x \<Longrightarrow> (\<And>r. k (f r) = k r) \<Longrightarrow>
   find (\<lambda>r. k r = a) (map (\<lambda>r. if k r = a then f r else r) xs) = Some (f x)"
  by (induction xs) (auto split: if_splits)

lemma find_map_other:
  "b \<noteq> a \<Longrightarrow> (\<And>r. k (f r) = k r) \<Longrightarrow>
   find (\<lambda>r. k r = b) (map (\<lambda>r. if k r = a then f r else r) xs) = find (\<lambda>r. k r = b) xs"
  by (induction xs) (auto split: if_splits)

lemma find_Some_mem: "find P xs = Some x \<Longrightarrow> x \<in> set xs \<and> P x"
  by (induction xs) (auto split: if_splits)

lemma distinct_key_unique:
  "distinct (map k xs) \<Longrightarrow> x \<in> set xs \<Longrightarrow> y \<in> set xs \<Longrightarrow> k x = k y \<Longrightarrow> x = y"
  by (induction xs) (auto simp: image_iff)

lemma map_key_update:
  "(\<And>r. k (f r) = k r) \<Longrightarrow> map k (map (\<lambda>r. if k r = a then f r else r) xs) = map k xs"
  by (induction xs) auto

lemma run_inv_mono: "run_inv t used d \<Longrightarrow> t \<le> t' \<Longrightarrow> used \<subseteq> used' \<Longrightarrow> run_inv t' used' d"
  unfolding run_inv_def approved_by_def list_all_iff
  by (auto split: option.splits) 

lemma run_inv_update_row:
  assumes inv: "run_inv t used d"
    and found: "get_prescription d pid = Some row"
    and key: "\<And>r. rp_prescription_id (f r) = rp_prescription_id r"
    and ok: "lifecycle_ok (f row)" "approved_by t (f row)"
    and rows: "tbl_repeat_prescriptions d' =
        map (\<lambda>rp. if rp_prescription_id rp = pid then f rp else rp) (tbl_repeat_prescriptions d)"
  shows "run_inv t used d'"
proof -
  from found have mem: "row \<in> set (tbl_repeat_prescriptions d)" and rid: "rp_prescription_id row = pid"
    using find_Some_mem[of "\<lambda>rp. rp_prescription_id rp = pid"] by (auto simp: get_prescription_def)
  from inv have dist: "distinct (map rp_prescription_id (tbl_repeat_prescriptions d))"
    by (simp add: run_inv_def)
  have only: "rp = row" if "rp \<in> set (tbl_repeat_prescriptions d)" "rp_prescription_id rp = pid" for rp
    using distinct_key_unique[OF dist that(1) mem] that(2) rid by simp
  have keys: "map rp_prescription_id (tbl_repeat_prescriptions d') = map rp_prescription_id (tbl_repeat_prescriptions d)"
    unfolding rows using key by (rule map_key_update)
  show ?thesis
    using inv ok only unfolding run_inv_def keys
    by (auto simp: rows list_all_iff)
qed

lemma Prescription_of_fields:
  "Prescription_of row = Inr p \<Longrightarrow>
     pr_prescription_id p = rp_prescription_id row \<and> pr_approved_at p = rp_approved_at row
     \<and> pr_issued_at p = rp_issued_at row \<and> pr_issued_by p = rp_issued_by row
     \<and> pr_institution_id p = rp_institution_id row
     \<and> rp_medication_id row = Some (pr_medication_id p) \<and> rp_time_statement row = Some (pr_time_statement p)"
  by (auto simp: Prescription_of_def split: option.splits)

lemma get_prescription_id: "get_prescription d pid = Some row \<Longrightarrow> rp_prescription_id row = pid"
  using find_Some_mem[of "\<lambda>rp. rp_prescription_id rp = pid"] by (auto simp: get_prescription_def)

lemma run_inv_row:
  "run_inv t used d \<Longrightarrow> get_prescription d pid = Some row \<Longrightarrow> lifecycle_ok row \<and> approved_by t row"
  using find_Some_mem[of "\<lambda>rp. rp_prescription_id rp = pid" "tbl_repeat_prescriptions d" row]
  by (auto simp: run_inv_def get_prescription_def list_all_iff)

lemma approve_inv:
  assumes "run_inv t used d" "t \<le> now"
  shows "run_inv now used (snd (with_prescription d pid (mark_prescription_as_approved now)))"
proof (cases "dep_get_prescription d pid")
  case (Inl e)
  then show ?thesis using assms by (auto simp: with_prescription_def intro: run_inv_mono)
next
  case (Inr p)
  then obtain row where row: "get_prescription d pid = Some row" "Prescription_of row = Inr p"
    by (auto simp: dep_get_prescription_def split: option.splits)
  note f = Prescription_of_fields[OF row(2)] get_prescription_id[OF row(1)]
  have base: "run_inv now used d" using assms by (auto intro: run_inv_mono)
  show ?thesis
  proof (cases "snd (mark_prescription_as_approved now p d) = d")
    case True
    then show ?thesis using Inr base by (simp add: with_prescription_def)
  next
    case False
    then have un: "pr_approved_at p = None"
      and eq: "snd (mark_prescription_as_approved now p d) = mark_prescription_approved now pid d"
      using f by (auto simp: mark_prescription_as_approved_def split: option.splits if_splits)
    from run_inv_row[OF assms(1) row(1)] un f have "rp_issued_at row = None" "rp_issued_by row = None"
      by (auto simp: lifecycle_ok_def split: option.splits)
    then have "run_inv now used (mark_prescription_approved now pid d)"
      by (intro run_inv_update_row[OF base row(1), where f = "\<lambda>rp. rp\<lparr>rp_approved_at := Some now\<rparr>"])
         (auto simp: lifecycle_ok_def approved_by_def mark_prescription_approved_def)
    then show ?thesis using Inr eq by (simp add: with_prescription_def)
  qed
qed

lemma issue_inv:
  assumes "run_inv t used d" "t \<le> now"
  shows "run_inv now used (snd (with_prescription d pid (\<lambda>p. mark_prescription_as_issued now p u)))"
proof (cases "dep_get_prescription d pid")
  case (Inl e)
  then show ?thesis using assms by (auto simp: with_prescription_def intro: run_inv_mono)
next
  case (Inr p)
  then obtain row where row: "get_prescription d pid = Some row" "Prescription_of row = Inr p"
    by (auto simp: dep_get_prescription_def split: option.splits)
  note f = Prescription_of_fields[OF row(2)] get_prescription_id[OF row(1)]
  have base: "run_inv now used d" using assms by (auto intro: run_inv_mono)
  show ?thesis
  proof (cases "snd (mark_prescription_as_issued now p u d) = d")
    case True
    then show ?thesis using Inr base by (simp add: with_prescription_def)
  next
    case False
    then have ap: "pr_approved_at p \<noteq> None"
      and eq: "snd (mark_prescription_as_issued now p u d) = mark_prescription_issued now pid (u_username u) d"
      using f by (auto simp: mark_prescription_as_issued_def split: option.splits if_splits)
    from run_inv_row[OF assms(1) row(1)] ap f assms(2)
    obtain a where "rp_approved_at row = Some a" "a \<le> now"
      by (auto simp: approved_by_def split: option.splits)
    then have "run_inv now used (mark_prescription_issued now pid (u_username u) d)"
      by (intro run_inv_update_row[OF base row(1), where f = "\<lambda>rp. rp\<lparr>rp_issued_at := Some now, rp_issued_by := Some (u_username u)\<rparr>"])
         (auto simp: lifecycle_ok_def approved_by_def mark_prescription_issued_def)
    then show ?thesis using Inr eq by (simp add: with_prescription_def)
  qed
qed

lemma modify_inv:
  assumes "run_inv t used d" "t \<le> now"
  shows "run_inv now used (snd (with_prescription d pid (modify_existing_prescription tp ch)))"
proof (cases "dep_get_prescription d pid")
  case (Inl e)
  then show ?thesis using assms by (auto simp: with_prescription_def intro: run_inv_mono)
next
  case (Inr p)
  then obtain row where row: "get_prescription d pid = Some row" "Prescription_of row = Inr p"
    by (auto simp: dep_get_prescription_def split: option.splits)
  note f = Prescription_of_fields[OF row(2)] get_prescription_id[OF row(1)]
  have base: "run_inv now used d" using assms by (auto intro: run_inv_mono)
  show ?thesis
  proof (cases "snd (modify_existing_prescription tp ch p d) = d")
    case True
    then show ?thesis using Inr base by (simp add: with_prescription_def)
  next
    case False
    then obtain ts md where
      eq: "snd (modify_existing_prescription tp ch p d) = update_prescription pid ts md d"
      using f by (auto simp: modify_existing_prescription_def split: option.splits if_splits)
    from run_inv_row[OF base row(1)]
    have "run_inv now used (update_prescription pid ts md d)"
      by (intro run_inv_update_row[OF base row(1), where f = "\<lambda>rp. rp\<lparr>rp_time_statement := ts, rp_medication_id := md\<rparr>"])
         (auto simp: lifecycle_ok_def approved_by_def update_prescription_def)
    then show ?thesis using Inr eq by (simp add: with_prescription_def)
  qed
qed

lemma delete_inv:
  assumes "run_inv t used d" "t \<le> now"
  shows "run_inv now used (snd (with_prescription d pid delete_user_repeat_prescription))"
proof -
  have base: "run_inv now used d" using assms by (auto intro: run_inv_mono)
  have "run_inv now used (snd (delete_prescription q d))" for q
    using base unfolding run_inv_def delete_prescription_def list_all_iff
    by (auto simp: distinct_map_filter)
  then show ?thesis using base
    by (auto simp: with_prescription_def delete_user_repeat_prescription_def Let_def split: sum.splits)
qed

lemma create_inv:
  assumes "run_inv t used (snd s)" "t \<le> now" "uuid_p \<notin> used"
  shows "run_inv now (insert uuid_p used)
           (snd (snd (create_user_repeat_prescription tp rnd uuid_p uuid_r username body ru s)))"
proof -
  have base: "run_inv now used (snd s)" using assms by (auto intro: run_inv_mono)
  show ?thesis
    using base assms(3)
    unfolding create_user_repeat_prescription_def create_prescription_def create_bloodwork_request_def
      check_medication_def check_iso8601_time_statement_def Let_def
    by (auto simp: run_inv_def lifecycle_ok_def approved_by_def split: option.splits sum.splits)
qed

lemma complete_inv:
  assumes "run_inv t used d" "t \<le> now"
  shows "run_inv now used (snd (mark_request_complete utcnow request_id user d))"
proof -
  have "tbl_repeat_prescriptions (snd (mark_request_complete utcnow request_id user d))
          = tbl_repeat_prescriptions d"
    by (simp add: mark_request_complete_def mark_bloodwork_request_complete_def
        split: option.splits sum.splits)
  then show ?thesis using run_inv_mono[OF assms(1,2) subset_refl] by (simp add: run_inv_def)
qed

lemma step_inv:
  assumes "run_inv t used (snd s)" "t \<le> now" "set (created_ids [(now, operation)]) \<inter> used = {}"
  shows "run_inv now (used \<union> set (created_ids [(now, operation)])) (snd (step tp rnd now operation s))"
proof (cases operation)
  case (Create username body ru uuid_p uuid_r)
  then show ?thesis using create_inv[OF assms(1,2), of uuid_p] assms(3) by (simp add: step_def)
next
  case (Approve pid)
  then show ?thesis using approve_inv[OF assms(1,2)] by (simp add: step_def)
next
  case (Issue pid u)
  then show ?thesis using issue_inv[OF assms(1,2)] by (simp add: step_def)
next
  case (Modify pid ch)
  then show ?thesis using modify_inv[OF assms(1,2)] by (simp add: step_def)
next
  case (Delete pid)
  then show ?thesis using delete_inv[OF assms(1,2)] by (simp add: step_def)
next
  case (Complete rid u utcnow)
  then show ?thesis using complete_inv[OF assms(1,2)] by (simp add: step_def)
qed

lemma created_ids_Cons: "created_ids (e # es) = created_ids [e] @ created_ids es"
  by (cases "snd e") auto

lemma run_inv_run:
  "run_inv t used (snd s) \<Longrightarrow> sorted (t # map fst es) \<Longrightarrow> distinct (created_ids es)
   \<Longrightarrow> set (created_ids es) \<inter> used = {}
   \<Longrightarrow> \<exists>t' used'. run_inv t' used' (snd (run tp rnd es s))"
proof (induction es arbitrary: t used s)
  case Nil
  then show ?case by auto
next
  case (Cons e es)
  obtain now operation where e: "e = (now, operation)" by (cases e)
  have ids: "created_ids (e # es) = created_ids [(now, operation)] @ created_ids es"
    using created_ids_Cons[of e es] e by simp
  have le: "t \<le> now" and srt: "sorted (now # map fst es)"
    using Cons.prems(2) e by auto
  have d1: "distinct (created_ids es)"
    and d2: "set (created_ids es) \<inter> (used \<union> set (created_ids [(now, operation)])) = {}"
    and d3: "set (created_ids [(now, operation)]) \<inter> used = {}"
    using Cons.prems(3,4) unfolding ids by auto
  have "run_inv now (used \<union> set (created_ids [(now, operation)])) (snd (step tp rnd now operation s))"
    using Cons.prems(1) le d3 by (rule step_inv)
  from Cons.IH[OF this srt d1 d2] show ?case using e by simp
qed

text \<open>C4. In every state a run of create, approve, issue, modify and delete requests
  (and completions of bloodwork requests) reaches from a database without prescriptions,
  every row has \<open>issued_at\<close> and \<open>issued_by\<close> both set or both unset, and an issued
  row is approved, no later than it was issued. The clock readings of the requests do not
  decrease along the run, and \<open>uuid4()\<close> never draws the same prescription identifier
  twice.\<close>

theorem lifecycle_invariant:
  assumes "tbl_repeat_prescriptions d = []"
    and "sorted (map fst events)"
    and "distinct (created_ids events)"
    and "rp \<in> set (tbl_repeat_prescriptions (snd (run time_parser rnd events (g, d))))"
  shows "lifecycle_ok rp"
proof -
  have "run_inv 0 {} (snd (g, d))" using assms(1) by (simp add: run_inv_def)
  from run_inv_run[OF this, of events time_parser rnd] assms(2,3)
  obtain t' used' where "run_inv t' used' (snd (run time_parser rnd events (g, d)))" by auto
  then show ?thesis using assms(4) by (auto simp: run_inv_def list_all_iff)
qed

theorem lifecycle_invariant_witness:
  "run parse_monthly counting_random
     [(10, Create ''bob'' \<lparr>bp_medication_id = ''med-b'', bp_time_statement = ''R/P1M''\<rparr> dr ''rx-1'' ''br-1''),
      (12, Approve ''rx-1''), (14, Complete ''br-1'' dr 13), (20, Approve ''rx-1''),
      (30, Issue ''rx-1'' carol), (40, Issue ''rx-1'' carol)] (0, db_clinic)
     = (2, db_clinic\<lparr>tbl_repeat_prescriptions := [rx ''med-b'' (Some 20) (Some 30) (Some ''carol'')],
            tbl_blood_requests := [bloodwork (Some 13)]\<rparr>)
   \<and> lifecycle_ok (rx ''med-b'' (Some 20) (Some 30) (Some ''carol''))"
proof -
  let ?events = "[(10, Create ''bob'' \<lparr>bp_medication_id = ''med-b'', bp_time_statement = ''R/P1M''\<rparr> dr ''rx-1'' ''br-1''),
      (12, Approve ''rx-1''), (14, Complete ''br-1'' dr 13), (20, Approve ''rx-1''),
      (30, Issue ''rx-1'' carol), (40, Issue ''rx-1'' carol)]"
  have r: "run parse_monthly counting_random ?events (0, db_clinic)
     = (2, db_clinic\<lparr>tbl_repeat_prescriptions := [rx ''med-b'' (Some 20) (Some 30) (Some ''carol'')],
            tbl_blood_requests := [bloodwork (Some 13)]\<rparr>)"
    by (simp add: example_defs query_defs handler_defs Let_def)
  have mem: "rx ''med-b'' (Some 20) (Some 30) (Some ''carol'')
      \<in> set (tbl_repeat_prescriptions (snd (run parse_monthly counting_random ?events (0, db_clinic))))"
    unfolding r by simp
  have "lifecycle_ok (rx ''med-b'' (Some 20) (Some 30) (Some ''carol''))"
    by (rule lifecycle_invariant[OF _ _ _ mem]) (simp_all add: db_clinic_def empty_db_def)
  with r show ?thesis by simp
qed

section \<open>Bloodwork requests along a run\<close>

lemma distinct_key_filter:
  "distinct (map k xs) \<Longrightarrow> length (filter (\<lambda>x. k x = a) xs) \<le> 1"
proof (induction xs)
  case Nil
  then show ?case by simp
next
  case (Cons x xs)
  show ?case
  proof (cases "k x = a")
    case True
    with Cons.prems have "filter (\<lambda>x. k x = a) xs = []"
      by (force simp: filter_empty_conv image_iff)
    with True show ?thesis by simp
  next
    case False
    with Cons show ?thesis by simp
  qed
qed

lemma requests_unchanged:
  "tbl_blood_requests (snd (with_prescription d pid (mark_prescription_as_approved now))) = tbl_blood_requests d"
  "tbl_blood_requests (snd (with_prescription d pid (\<lambda>p. mark_prescription_as_issued now p u))) = tbl_blood_requests d"
  "tbl_blood_requests (snd (with_prescription d pid (modify_existing_prescription tp ch))) = tbl_blood_requests d"
  "tbl_blood_requests (snd (with_prescription d pid delete_user_repeat_prescription)) = tbl_blood_requests d"
  by (auto simp: with_prescription_def mark_prescription_as_approved_def mark_prescription_approved_def
      mark_prescription_as_issued_def mark_prescription_issued_def modify_existing_prescription_def
      update_prescription_def delete_user_repeat_prescription_def delete_prescription_def Let_def
      split: sum.splits option.splits)

lemma requests_completed:
  "map br_prescription_id (tbl_blood_requests (snd (mark_request_complete utcnow request_id user d)))
     = map br_prescription_id (tbl_blood_requests d)"
proof -
  have "map br_prescription_id
          (map (\<lambda>br. if br_request_id br = r then br\<lparr>br_completed_at := Some utcnow\<rparr> else br) xs)
        = map br_prescription_id xs" for r xs
    by (induction xs) auto
  then show ?thesis
    by (simp add: mark_request_complete_def mark_bloodwork_request_complete_def
        split: option.splits sum.splits)
qed

lemma step_req_inv:
  assumes "req_inv used (snd s)" "set (created_ids [(now, operation)]) \<inter> used = {}"
  shows "req_inv (used \<union> set (created_ids [(now, operation)])) (snd (step tp rnd now operation s))"
proof (cases operation)
  case (Create username body ru uuid_p uuid_r)
  then show ?thesis
    using assms
    unfolding step_def create_user_repeat_prescription_def create_prescription_def
      create_bloodwork_request_def check_medication_def check_iso8601_time_statement_def Let_def
    by (auto simp: req_inv_def split: option.splits sum.splits)
qed (use assms in \<open>auto simp: step_def req_inv_def requests_unchanged requests_completed\<close>)

lemma req_inv_run:
  "req_inv used (snd s) \<Longrightarrow> distinct (created_ids es) \<Longrightarrow> set (created_ids es) \<inter> used = {}
   \<Longrightarrow> \<exists>used'. req_inv used' (snd (run tp rnd es s))"
proof (induction es arbitrary: used s)
  case Nil
  then show ?case by auto
next
  case (Cons e es)
  obtain now operation where e: "e = (now, operation)" by (cases e)
  have ids: "created_ids (e # es) = created_ids [(now, operation)] @ created_ids es"
    using created_ids_Cons[of e es] e by simp
  have d1: "distinct (created_ids es)"
    and d2: "set (created_ids es) \<inter> (used \<union> set (created_ids [(now, operation)])) = {}"
    and d3: "set (created_ids [(now, operation)]) \<inter> used = {}"
    using Cons.prems(2,3) unfolding ids by auto
  have "req_inv (used \<union> set (created_ids [(now, operation)])) (snd (step tp rnd now operation s))"
    using Cons.prems(1) d3 by (rule step_req_inv)
  from Cons.IH[OF this d1 d2] show ?case using e by simp
qed

text \<open>In the states a run reaches from a database without bloodwork requests, a
  prescription has at most one request.\<close>

lemma run_requests_one_to_one:
  assumes "tbl_blood_requests d = []" and "distinct (created_ids events)"
  shows "length (filter (\<lambda>br. br_prescription_id br = pid)
           (tbl_blood_requests (snd (run time_parser rnd events (g, d))))) \<le> 1"
proof -
  have "req_inv {} (snd (g, d))" using assms(1) by (simp add: req_inv_def)
  from req_inv_run[OF this assms(2), of time_parser rnd]
  obtain used' where "req_inv used' (snd (run time_parser rnd events (g, d)))" by auto
  then have "distinct (map br_prescription_id (tbl_blood_requests (snd (run time_parser rnd events (g, d)))))"
    by (simp add: req_inv_def)
  then show ?thesis by (rule distinct_key_filter)
qed

section \<open>Approve\<close>

lemma joined_requests_nonempty: "joined_requests d row \<noteq> []"
  by (simp add: joined_requests_def split: list.splits)

lemma bloodwork_request_first:
  "get_prescription d pid = Some row \<Longrightarrow>
   get_bloodwork_request_for_prescription d pid = Some (hd (joined_requests d row))"
proof -
  assume "get_prescription d pid = Some row"
  then obtain ys where
    "filter (\<lambda>rp. rp_prescription_id rp = pid) (tbl_repeat_prescriptions d) = row # ys"
    using find_filter[of "\<lambda>rp. rp_prescription_id rp = pid"] by (auto simp: get_prescription_def)
  then show ?thesis
    using joined_requests_nonempty[of d row]
    by (cases "joined_requests d row") (simp_all add: get_bloodwork_request_for_prescription_def)
qed

lemma at_most_one_request:
  assumes "length (filter (\<lambda>br. br_prescription_id br = pid) (tbl_blood_requests d)) \<le> 1"
    and that: "rp_prescription_id row = pid"
  shows "(let details = hd (joined_requests d row) in
            bd_request_id details \<noteq> None \<and> bd_completed_at details = None)
         = (\<exists>br \<in> set (tbl_blood_requests d). br_prescription_id br = pid \<and> br_completed_at br = None)"
proof (cases "filter (\<lambda>br. br_prescription_id br = pid) (tbl_blood_requests d)")
  case Nil
  then have "\<forall>br \<in> set (tbl_blood_requests d). br_prescription_id br \<noteq> pid"
    by (simp add: filter_empty_conv)
  with Nil that show ?thesis by (auto simp: joined_requests_def)
next
  case (Cons br brs)
  with assms(1) have brs: "brs = []" by simp
  have "set (filter (\<lambda>br. br_prescription_id br = pid) (tbl_blood_requests d)) = {br}"
    using Cons brs by simp
  then have only: "{x \<in> set (tbl_blood_requests d). br_prescription_id x = pid} = {br}"
    by simp
  have "(\<exists>x \<in> set (tbl_blood_requests d). br_prescription_id x = pid \<and> br_completed_at x = None)
      = (\<exists>x \<in> {x \<in> set (tbl_blood_requests d). br_prescription_id x = pid}. br_completed_at x = None)"
    by auto
  also have "\<dots> = (br_completed_at br = None)"
    unfolding only by simp
  finally show ?thesis using Cons brs that by (simp add: joined_requests_def)
qed

text \<open>C2. Approving a stored prescription: declined as already approved when
  \<open>approved_at\<close> is set; otherwise declined as bloodwork incomplete when its bloodwork
  request is not completed; otherwise (no request, or a completed one) approved:
  \<open>approved_at\<close> becomes the current time, and nothing else changes in the row, in
  the other rows or in the other tables. A prescription has at most one bloodwork
  request.\<close>

theorem approve_outcomes:
  assumes "get_prescription d pid = Some row"
    and "rp_medication_id row \<noteq> None" and "rp_time_statement row \<noteq> None"
    and "length (filter (\<lambda>br. br_prescription_id br = pid) (tbl_blood_requests d)) \<le> 1"
  shows "with_prescription d pid (mark_prescription_as_approved now) =
           (if rp_approved_at row \<noteq> None
            then (Inl (HTTPException 400 ''Prescription already approved.''), d)
            else if \<exists>br \<in> set (tbl_blood_requests d).
                      br_prescription_id br = pid \<and> br_completed_at br = None
            then (Inl (HTTPException 400 ''Bloodwork incomplete.''), d)
            else (Inr (), mark_prescription_approved now pid d))
         \<and> get_prescription (mark_prescription_approved now pid d) pid
             = Some (row\<lparr>rp_approved_at := Some now\<rparr>)
         \<and> (\<forall>other. other \<noteq> pid \<longrightarrow>
               get_prescription (mark_prescription_approved now pid d) other = get_prescription d other)
         \<and> (mark_prescription_approved now pid d)
               \<lparr>tbl_repeat_prescriptions := tbl_repeat_prescriptions d\<rparr> = d"
proof -
  obtain p where p: "Prescription_of row = Inr p"
    using assms(2,3) by (auto simp: Prescription_of_def)
  note f = Prescription_of_fields[OF p] get_prescription_id[OF assms(1)]
  have gate: "(bd_request_id (hd (joined_requests d row)) \<noteq> None
                \<and> bd_completed_at (hd (joined_requests d row)) = None)
      = (\<exists>br \<in> set (tbl_blood_requests d). br_prescription_id br = pid \<and> br_completed_at br = None)"
    using at_most_one_request[OF assms(4), of row] f by (simp add: Let_def)
  have routed: "with_prescription d pid (mark_prescription_as_approved now)
          = mark_prescription_as_approved now p d"
    using assms(1) p by (simp add: with_prescription_def dep_get_prescription_def)
  have handled: "mark_prescription_as_approved now p d =
           (if rp_approved_at row \<noteq> None
            then (Inl (HTTPException 400 ''Prescription already approved.''), d)
            else if bd_request_id (hd (joined_requests d row)) \<noteq> None
                \<and> bd_completed_at (hd (joined_requests d row)) = None
            then (Inl (HTTPException 400 ''Bloodwork incomplete.''), d)
            else (Inr (), mark_prescription_approved now pid d))"
    unfolding mark_prescription_as_approved_def
    by (simp add: f bloodwork_request_first[OF assms(1)])
  have outcome: "with_prescription d pid (mark_prescription_as_approved now) =
           (if rp_approved_at row \<noteq> None
            then (Inl (HTTPException 400 ''Prescription already approved.''), d)
            else if \<exists>br \<in> set (tbl_blood_requests d).
                      br_prescription_id br = pid \<and> br_completed_at br = None
            then (Inl (HTTPException 400 ''Bloodwork incomplete.''), d)
            else (Inr (), mark_prescription_approved now pid d))"
    unfolding routed handled gate ..
  have same: "get_prescription (mark_prescription_approved now pid d) pid
             = Some (row\<lparr>rp_approved_at := Some now\<rparr>)"
    using assms(1) unfolding get_prescription_def mark_prescription_approved_def Let_def
    by (simp add: find_map_upd[where k = rp_prescription_id
          and f = "\<lambda>rp. rp\<lparr>rp_approved_at := Some now\<rparr>"])
  have others: "get_prescription (mark_prescription_approved now pid d) other = get_prescription d other"
    if "other \<noteq> pid" for other
    using that unfolding get_prescription_def mark_prescription_approved_def Let_def
    by (simp add: find_map_other[where k = rp_prescription_id
          and f = "\<lambda>rp. rp\<lparr>rp_approved_at := Some now\<rparr>"])
  have frame: "(mark_prescription_approved now pid d)
               \<lparr>tbl_repeat_prescriptions := tbl_repeat_prescriptions d\<rparr> = d"
    by (simp add: mark_prescription_approved_def)
  from outcome same others frame show ?thesis by blast
qed

theorem approve_outcomes_witness:
  "with_prescription (db_clinic\<lparr>tbl_repeat_prescriptions := [rx ''med-b'' None None None],
        tbl_blood_requests := [bloodwork None]\<rparr>) ''rx-1'' (mark_prescription_as_approved 20)
     = (Inl (HTTPException 400 ''Bloodwork incomplete.''),
        db_clinic\<lparr>tbl_repeat_prescriptions := [rx ''med-b'' None None None],
          tbl_blood_requests := [bloodwork None]\<rparr>)
   \<and> with_prescription (db_clinic\<lparr>tbl_repeat_prescriptions := [rx ''med-b'' None None None],
        tbl_blood_requests := [bloodwork (Some 15)]\<rparr>) ''rx-1'' (mark_prescription_as_approved 20)
     = (Inr (), db_clinic\<lparr>tbl_repeat_prescriptions := [rx ''med-b'' (Some 20) None None],
          tbl_blood_requests := [bloodwork (Some 15)]\<rparr>)
   \<and> with_prescription (db_clinic\<lparr>tbl_repeat_prescriptions := [rx ''med-a'' None None None]\<rparr>)
        ''rx-1'' (mark_prescription_as_approved 20)
     = (Inr (), db_clinic\<lparr>tbl_repeat_prescriptions := [rx ''med-a'' (Some 20) None None]\<rparr>)
   \<and> with_prescription (db_clinic\<lparr>tbl_repeat_prescriptions := [rx ''med-a'' (Some 20) None None]\<rparr>)
        ''rx-1'' (mark_prescription_as_approved 25)
     = (Inl (HTTPException 400 ''Prescription already approved.''),
        db_clinic\<lparr>tbl_repeat_prescriptions := [rx ''med-a'' (Some 20) None None]\<rparr>)"
  using approve_outcomes [of "db_clinic\<lparr>tbl_repeat_prescriptions := [rx ''med-b'' None None None],
        tbl_blood_requests := [bloodwork None]\<rparr>" "''rx-1''" "rx ''med-b'' None None None" 20]
    approve_outcomes [of "db_clinic\<lparr>tbl_repeat_prescriptions := [rx ''med-b'' None None None],
        tbl_blood_requests := [bloodwork (Some 15)]\<rparr>" "''rx-1''" "rx ''med-b'' None None None" 20]
    approve_outcomes [of "db_clinic\<lparr>tbl_repeat_prescriptions := [rx ''med-a'' None None None]\<rparr>"
        "''rx-1''" "rx ''med-a'' None None None" 20]
    approve_outcomes [of "db_clinic\<lparr>tbl_repeat_prescriptions := [rx ''med-a'' (Some 20) None None]\<rparr>"
        "''rx-1''" "rx ''med-a'' (Some 20) None None" 25]
  by (simp add: example_defs get_prescription_def mark_prescription_approved_def)

text \<open>Completing the request is what lets the approval through: the practice of the
  request completes it once, a second completion is declined, and so is one from another
  institution.\<close>

lemma mark_request_complete_example:
  "mark_request_complete 13 ''br-1'' dr
       (db_clinic\<lparr>tbl_repeat_prescriptions := [rx ''med-b'' None None None],
          tbl_blood_requests := [bloodwork None]\<rparr>)
     = (Inr (), db_clinic\<lparr>tbl_repeat_prescriptions := [rx ''med-b'' None None None],
          tbl_blood_requests := [bloodwork (Some 13)]\<rparr>)
   \<and> mark_request_complete 16 ''br-1'' dr
       (db_clinic\<lparr>tbl_repeat_prescriptions := [rx ''med-b'' None None None],
          tbl_blood_requests := [bloodwork (Some 13)]\<rparr>)
     = (Inl (HTTPException 400 ''Bloodwork request already completed.''),
        db_clinic\<lparr>tbl_repeat_prescriptions := [rx ''med-b'' None None None],
          tbl_blood_requests := [bloodwork (Some 13)]\<rparr>)
   \<and> mark_request_complete 13 ''br-1'' carol
       (db_clinic\<lparr>tbl_repeat_prescriptions := [rx ''med-b'' None None None],
          tbl_blood_requests := [bloodwork None]\<rparr>)
     = (Inl (HTTPException 404 ''Bloodwork request not found.''),
        db_clinic\<lparr>tbl_repeat_prescriptions := [rx ''med-b'' None None None],
          tbl_blood_requests := [bloodwork None]\<rparr>)"
  by (simp add: example_defs query_defs handler_defs)

section \<open>Issue\<close>

text \<open>C3. Issue checks, in this order and each with its own error: the issuing user's
  institution is the prescription's filling institution (403 Wrong institution); the
  prescription is not issued, neither \<open>issued_at\<close> nor \<open>issued_by\<close> being set (400
  already issued); the prescription is approved (400 not approved). When all three hold
  the row gets \<open>issued_at\<close>, the current time, and \<open>issued_by\<close>, the issuing user.\<close>

theorem issue_outcomes:
  "(u_institution_id issuing_user \<noteq> Some (pr_institution_id prescription) \<longrightarrow>
      mark_prescription_as_issued now prescription issuing_user d
        = (Inl (HTTPException 403 ''Wrong institution.''), d))
   \<and> (u_institution_id issuing_user = Some (pr_institution_id prescription)
        \<and> (pr_issued_at prescription \<noteq> None \<or> pr_issued_by prescription \<noteq> None) \<longrightarrow>
      mark_prescription_as_issued now prescription issuing_user d
        = (Inl (HTTPException 400 ''Prescription already issued.''), d))
   \<and> (u_institution_id issuing_user = Some (pr_institution_id prescription)
        \<and> pr_issued_at prescription = None \<and> pr_issued_by prescription = None
        \<and> pr_approved_at prescription = None \<longrightarrow>
      mark_prescription_as_issued now prescription issuing_user d
        = (Inl (HTTPException 400 ''Prescription not approved for issue.''), d))
   \<and> (u_institution_id issuing_user = Some (pr_institution_id prescription)
        \<and> pr_issued_at prescription = None \<and> pr_issued_by prescription = None
        \<and> pr_approved_at prescription \<noteq> None \<longrightarrow>
      mark_prescription_as_issued now prescription issuing_user d
        = (Inr (), mark_prescription_issued now (pr_prescription_id prescription)
                     (u_username issuing_user) d)
      \<and> (\<forall>row. get_prescription d (pr_prescription_id prescription) = Some row \<longrightarrow>
            get_prescription
              (mark_prescription_issued now (pr_prescription_id prescription)
                 (u_username issuing_user) d)
              (pr_prescription_id prescription)
            = Some (row\<lparr>rp_issued_at := Some now, rp_issued_by := Some (u_username issuing_user)\<rparr>)))
   \<and> distinct [HTTPException 403 ''Wrong institution.'',
        HTTPException 400 ''Prescription already issued.'',
        HTTPException 400 ''Prescription not approved for issue.'']"
proof -
  have "get_prescription (mark_prescription_issued now pid u d) pid
          = Some (row\<lparr>rp_issued_at := Some now, rp_issued_by := Some u\<rparr>)"
    if "get_prescription d pid = Some row" for pid u row
    using that unfolding get_prescription_def mark_prescription_issued_def Let_def
    by (simp add: find_map_upd[where k = rp_prescription_id
          and f = "\<lambda>rp. rp\<lparr>rp_issued_at := Some now, rp_issued_by := Some u\<rparr>"])
  then show ?thesis
    by (auto simp: mark_prescription_as_issued_def)
qed

theorem issue_outcomes_witness:
  "with_prescription (db_clinic\<lparr>tbl_repeat_prescriptions := [rx ''med-a'' (Some 20) None None]\<rparr>)
        ''rx-1'' (\<lambda>p. mark_prescription_as_issued 30 p carol)
     = (Inr (), db_clinic\<lparr>tbl_repeat_prescriptions :=
          [rx ''med-a'' (Some 20) (Some 30) (Some ''carol'')]\<rparr>)
   \<and> with_prescription (db_clinic\<lparr>tbl_repeat_prescriptions := [rx ''med-a'' None None None]\<rparr>)
        ''rx-1'' (\<lambda>p. mark_prescription_as_issued 30 p dr)
     = (Inl (HTTPException 403 ''Wrong institution.''),
        db_clinic\<lparr>tbl_repeat_prescriptions := [rx ''med-a'' None None None]\<rparr>)
   \<and> with_prescription (db_clinic\<lparr>tbl_repeat_prescriptions := [rx ''med-a'' None None None]\<rparr>)
        ''rx-1'' (\<lambda>p. mark_prescription_as_issued 30 p carol)
     = (Inl (HTTPException 400 ''Prescription not approved for issue.''),
        db_clinic\<lparr>tbl_repeat_prescriptions := [rx ''med-a'' None None None]\<rparr>)
   \<and> with_prescription (db_clinic\<lparr>tbl_repeat_prescriptions :=
          [rx ''med-a'' (Some 20) (Some 30) (Some ''carol'')]\<rparr>)
        ''rx-1'' (\<lambda>p. mark_prescription_as_issued 40 p carol)
     = (Inl (HTTPException 400 ''Prescription already issued.''),
        db_clinic\<lparr>tbl_repeat_prescriptions := [rx ''med-a'' (Some 20) (Some 30) (Some ''carol'')]\<rparr>)"
proof -
  let ?p = "\<lambda>a i b. \<lparr>pr_prescription_id = ''rx-1'', pr_medication_id = ''med-a'',
    pr_time_statement = ''R/P1M'', pr_institution_id = ''pharmacy-1'', pr_username = ''bob'',
    pr_approved_at = a, pr_issued_at = i, pr_issued_by = b, pr_short_code = 1\<rparr>"
  have load: "with_prescription (db_clinic\<lparr>tbl_repeat_prescriptions := [rx ''med-a'' a i b]\<rparr>) ''rx-1'' h
          = h (?p a i b) (db_clinic\<lparr>tbl_repeat_prescriptions := [rx ''med-a'' a i b]\<rparr>)" for a i b
      and h :: "Prescription \<Rightarrow> db \<Rightarrow> (error + unit) \<times> db"
    by (simp add: with_prescription_def dep_get_prescription_def Prescription_of_def
        get_prescription_def rx_def)
  show ?thesis
    unfolding load
    using issue_outcomes [of carol "?p (Some 20) None None" 30
            "db_clinic\<lparr>tbl_repeat_prescriptions := [rx ''med-a'' (Some 20) None None]\<rparr>"]
      issue_outcomes [of dr "?p None None None" 30
            "db_clinic\<lparr>tbl_repeat_prescriptions := [rx ''med-a'' None None None]\<rparr>"]
      issue_outcomes [of carol "?p None None None" 30
            "db_clinic\<lparr>tbl_repeat_prescriptions := [rx ''med-a'' None None None]\<rparr>"]
      issue_outcomes [of carol "?p (Some 20) (Some 30) (Some ''carol'')" 40
            "db_clinic\<lparr>tbl_repeat_prescriptions := [rx ''med-a'' (Some 20) (Some 30) (Some ''carol'')]\<rparr>"]
    by (simp add: example_defs mark_prescription_issued_def)
qed

section \<open>Create\<close>

lemma first_failure_None: "first_failure cs = None \<Longrightarrow> list_all fst cs"
  by (induction cs) (auto split: if_splits)

lemma pharmacy_assignment_of_found_user:
  "get_user_by_username d username = Some user \<Longrightarrow>
   get_users_pharmacy_assignment d (u_username user) = get_users_pharmacy_assignment d username"
  by (auto simp: get_user_by_username_def dest: find_username)

text \<open>The row and the bloodwork request a successful create inserts.\<close>

lemma create_declined:
  assumes "first_failure (create_preconditions time_parser (snd s) username prescription
             requesting_user) = Some e"
    and "\<And>x. time_parser (bp_time_statement prescription) = Inl x \<Longrightarrow> x = ISO8601SyntaxError"
  shows "create_user_repeat_prescription time_parser rnd uuid_p uuid_r username prescription
           requesting_user s = (Inl e, s)"
proof (cases "get_user_by_username (snd s) username")
  case None
  with assms(1) show ?thesis
    by (simp add: create_preconditions_def create_user_repeat_prescription_def)
next
  case (Some user)
  note pa = pharmacy_assignment_of_found_user[OF Some]
  from assms(1) Some show ?thesis
    unfolding create_user_repeat_prescription_def create_preconditions_def
      check_medication_def check_iso8601_time_statement_def
    by (auto simp: pa dest: assms(2) split: option.splits if_splits sum.splits)
qed

lemma create_accepted:
  assumes "first_failure (create_preconditions time_parser (snd s) username prescription
             requesting_user) = None"
  shows "\<exists>assignment medication recurrence.
      get_users_pharmacy_assignment (snd s) username = Some assignment
      \<and> get_medication_by_id (snd s) (bp_medication_id prescription) = Some medication
      \<and> time_parser (bp_time_statement prescription) = Inr recurrence
      \<and> create_user_repeat_prescription time_parser rnd uuid_p uuid_r username prescription
          requesting_user s =
        (Inr \<lparr>cr_prescription_id = uuid_p,
              cr_bloodwork_request_id =
                (case m_bloodwork_requirement medication of None \<Rightarrow> None | Some requirement \<Rightarrow> Some uuid_r)\<rparr>,
         snd (rnd_randint rnd (rnd_seed rnd 1) 0 99999999),
         (snd s)\<lparr>tbl_repeat_prescriptions := tbl_repeat_prescriptions (snd s) @
             [\<lparr>rp_prescription_id = uuid_p,
               rp_medication_id = Some (bp_medication_id prescription),
               rp_time_statement = Some recurrence,
               rp_institution_id = pa_institution_id assignment,
               rp_created_by_institution_id = u_institution_id requesting_user,
               rp_username = username,
               rp_approved_at = None, rp_issued_at = None, rp_issued_by = None,
               rp_short_code = fst (rnd_randint rnd (rnd_seed rnd 1) 0 99999999)\<rparr>],
           tbl_blood_requests := tbl_blood_requests (snd s) @
             (case m_bloodwork_requirement medication of
                None \<Rightarrow> []
              | Some requirement \<Rightarrow>
                  [\<lparr>br_request_id = uuid_r, br_request_type = requirement,
                    br_prescription_id = uuid_p,
                    br_practice_id = u_institution_id requesting_user,
                    br_completed_at = None\<rparr>])\<rparr>)"
proof -
  from first_failure_None[OF assms]
  obtain user assignment medication recurrence practice home where found:
    "get_user_by_username (snd s) username = Some user"
    "get_medical_practice (snd s) (u_institution_id requesting_user) = Some practice"
    "get_users_pharmacy_assignment (snd s) username = Some assignment"
    "get_medical_practice (snd s) (u_institution_id user) = Some home"
    "get_medication_by_id (snd s) (bp_medication_id prescription) = Some medication"
    "time_parser (bp_time_statement prescription) = Inr recurrence"
    by (cases "time_parser (bp_time_statement prescription)")
       (auto simp: create_preconditions_def split: option.splits)
  have name: "u_username user = username"
    using found(1) by (auto simp: get_user_by_username_def dest: find_username)
  show ?thesis
    using found name
    by (cases "m_bloodwork_requirement medication")
       (simp_all add: create_user_repeat_prescription_def create_prescription_def
          create_bloodwork_request_def check_medication_def check_iso8601_time_statement_def Let_def)
qed

text \<open>What create answers when the parser raises nothing but \<open>ISO8601SyntaxError\<close> on
  the time statement: the request is declined by the first precondition that fails, in
  the order: the target user exists; the requesting user's institution is a medical
  practice; the target user has a pharmacy assignment; the target user's institution is
  a medical practice; the medication exists; the time statement parses. The six errors
  are pairwise different and a declined request changes nothing. When all hold, the
  prescription is stored with \<open>approved_at\<close>, \<open>issued_at\<close> and \<open>issued_by\<close> null,
  and a bloodwork request with \<open>completed_at\<close> null, in the requesting user's
  institution, is stored exactly when the medication has a bloodwork requirement.\<close>

lemma create_outcomes:
  assumes "\<And>x. time_parser (bp_time_statement prescription) = Inl x \<Longrightarrow> x = ISO8601SyntaxError"
  shows "distinct (map snd (create_preconditions time_parser (snd s) username prescription requesting_user))
   \<and> (\<forall>e. first_failure (create_preconditions time_parser (snd s) username prescription
             requesting_user) = Some e \<longrightarrow>
         create_user_repeat_prescription time_parser rnd uuid_p uuid_r username prescription
           requesting_user s = (Inl e, s))
   \<and> (first_failure (create_preconditions time_parser (snd s) username prescription
         requesting_user) = None \<longrightarrow>
       (\<exists>assignment medication recurrence.
          get_users_pharmacy_assignment (snd s) username = Some assignment
          \<and> get_medication_by_id (snd s) (bp_medication_id prescription) = Some medication
          \<and> time_parser (bp_time_statement prescription) = Inr recurrence
          \<and> create_user_repeat_prescription time_parser rnd uuid_p uuid_r username prescription
              requesting_user s =
            (Inr \<lparr>cr_prescription_id = uuid_p,
                  cr_bloodwork_request_id =
                    (case m_bloodwork_requirement medication of
                       None \<Rightarrow> None | Some requirement \<Rightarrow> Some uuid_r)\<rparr>,
             snd (rnd_randint rnd (rnd_seed rnd 1) 0 99999999),
             (snd s)\<lparr>tbl_repeat_prescriptions := tbl_repeat_prescriptions (snd s) @
                 [\<lparr>rp_prescription_id = uuid_p,
                   rp_medication_id = Some (bp_medication_id prescription),
                   rp_time_statement = Some recurrence,
                   rp_institution_id = pa_institution_id assignment,
                   rp_created_by_institution_id = u_institution_id requesting_user,
                   rp_username = username,
                   rp_approved_at = None, rp_issued_at = None, rp_issued_by = None,
                   rp_short_code = fst (rnd_randint rnd (rnd_seed rnd 1) 0 99999999)\<rparr>],
               tbl_blood_requests := tbl_blood_requests (snd s) @
                 (case m_bloodwork_requirement medication of
                    None \<Rightarrow> []
                  | Some requirement \<Rightarrow>
                      [\<lparr>br_request_id = uuid_r, br_request_type = requirement,
                        br_prescription_id = uuid_p,
                        br_practice_id = u_institution_id requesting_user,
                        br_completed_at = None\<rparr>])\<rparr>)))"
proof (intro conjI allI impI)
  show "distinct (map snd (create_preconditions time_parser (snd s) username prescription
          requesting_user))"
    by (simp add: create_preconditions_def)
next
  fix e
  assume "first_failure (create_preconditions time_parser (snd s) username prescription
             requesting_user) = Some e"
  then show "create_user_repeat_prescription time_parser rnd uuid_p uuid_r username prescription
           requesting_user s = (Inl e, s)"
    using assms by (rule create_declined)
qed (erule create_accepted)

lemma create_outcomes_examples:
  "create_user_repeat_prescription parse_monthly counting_random ''rx-1'' ''br-1'' ''bob''
       \<lparr>bp_medication_id = ''med-b'', bp_time_statement = ''R/P1M''\<rparr> dr (0, db_clinic)
     = (Inr \<lparr>cr_prescription_id = ''rx-1'', cr_bloodwork_request_id = Some ''br-1''\<rparr>, 2,
        db_clinic\<lparr>tbl_repeat_prescriptions := [rx ''med-b'' None None None],
          tbl_blood_requests := [bloodwork None]\<rparr>)
   \<and> create_user_repeat_prescription parse_monthly counting_random ''rx-1'' ''br-1'' ''bob''
       \<lparr>bp_medication_id = ''med-a'', bp_time_statement = ''R/P1M''\<rparr> dr (0, db_clinic)
     = (Inr \<lparr>cr_prescription_id = ''rx-1'', cr_bloodwork_request_id = None\<rparr>, 2,
        db_clinic\<lparr>tbl_repeat_prescriptions := [rx ''med-a'' None None None]\<rparr>)
   \<and> create_user_repeat_prescription parse_monthly counting_random ''rx-1'' ''br-1'' ''nobody''
       \<lparr>bp_medication_id = ''med-z'', bp_time_statement = ''monthly''\<rparr> carol (0, db_clinic)
     = (Inl (HTTPException 400 ''User not found.''), 0, db_clinic)
   \<and> create_user_repeat_prescription parse_monthly counting_random ''rx-1'' ''br-1'' ''bob''
       \<lparr>bp_medication_id = ''med-z'', bp_time_statement = ''monthly''\<rparr> carol (0, db_clinic)
     = (Inl (HTTPException 400 ''Institution invalid.''), 0, db_clinic)
   \<and> create_user_repeat_prescription parse_monthly counting_random ''rx-1'' ''br-1'' ''dr''
       \<lparr>bp_medication_id = ''med-z'', bp_time_statement = ''monthly''\<rparr> dr (0, db_clinic)
     = (Inl (HTTPException 400 ''Pharmacy assignment not found.''), 0, db_clinic)
   \<and> create_user_repeat_prescription parse_monthly counting_random ''rx-1'' ''br-1'' ''bob''
       \<lparr>bp_medication_id = ''med-z'', bp_time_statement = ''monthly''\<rparr> dr (0, db_clinic)
     = (Inl (HTTPException 400 ''Medication invalid.''), 0, db_clinic)
   \<and> create_user_repeat_prescription parse_monthly counting_random ''rx-1'' ''br-1'' ''bob''
       \<lparr>bp_medication_id = ''med-a'', bp_time_statement = ''monthly''\<rparr> dr (0, db_clinic)
     = (Inl (HTTPException 400 ''Time statement invalid.''), 0, db_clinic)"
  by (simp add: example_defs query_defs handler_defs Let_def)

text \<open>When the first five preconditions hold and the parser raises another exception
  than \<open>ISO8601SyntaxError\<close>, the precondition that fails first is the sixth, and
  the request ends in the parser's exception, with the state unchanged.\<close>

lemma create_uncaught_parser_error:
  assumes "list_all fst (butlast (create_preconditions time_parser (snd s) username prescription
             requesting_user))"
    and "time_parser (bp_time_statement prescription) = Inl e"
    and "e \<noteq> ISO8601SyntaxError"
  shows "first_failure (create_preconditions time_parser (snd s) username prescription
             requesting_user) = Some (HTTPException 400 ''Time statement invalid.'')
     \<and> create_user_repeat_prescription time_parser rnd uuid_p uuid_r username prescription
           requesting_user s = (Inl e, s)"
proof -
  from assms(1) obtain user where user: "get_user_by_username (snd s) username = Some user"
    by (auto simp: create_preconditions_def)
  note pa = pharmacy_assignment_of_found_user[OF user]
  from assms user show ?thesis
    unfolding create_user_repeat_prescription_def create_preconditions_def
      check_medication_def check_iso8601_time_statement_def
    by (auto simp: pa split: option.splits if_splits sum.splits)
qed

text \<open>C5. A create request whose time statement does not parse as a recurrence is
  declined with 400, Time statement invalid, as the sixth of the preconditions. The code
  departs from this when the parser raises another exception than
  \<open>ISO8601SyntaxError\<close>, which \<open>check_iso8601_time_statement\<close> does not catch: for
  bob, whose first five preconditions hold, the statement \<open>R/2021-13-45/P1D\<close> does not
  parse, the precondition that fails first is the sixth, and the request ends in
  \<open>BadInputError\<close> (status 500), with nothing stored.\<close>

theorem create_time_statement_not_declined:
  "parse_monthly ''R/2021-13-45/P1D'' = Inl BadInputError
   \<and> first_failure (create_preconditions parse_monthly db_clinic ''bob''
          \<lparr>bp_medication_id = ''med-a'', bp_time_statement = ''R/2021-13-45/P1D''\<rparr> dr)
       = Some (HTTPException 400 ''Time statement invalid.'')
   \<and> create_user_repeat_prescription parse_monthly counting_random ''rx-1'' ''br-1'' ''bob''
         \<lparr>bp_medication_id = ''med-a'', bp_time_statement = ''R/2021-13-45/P1D''\<rparr> dr (0, db_clinic)
       = (Inl BadInputError, 0, db_clinic)
   \<and> create_user_repeat_prescription parse_monthly counting_random ''rx-1'' ''br-1'' ''bob''
         \<lparr>bp_medication_id = ''med-a'', bp_time_statement = ''monthly''\<rparr> dr (0, db_clinic)
       = (Inl (HTTPException 400 ''Time statement invalid.''), 0, db_clinic)
   \<and> BadInputError \<noteq> HTTPException 400 ''Time statement invalid.''"
  by (simp add: create_preconditions_def example_defs query_defs handler_defs Let_def)

section \<open>Short codes\<close>

text \<open>C9. \<open>create_prescription\<close> seeds the generator with the constant 1 before it draws
  the short code: the code stored is the first draw after that seed, whatever the
  request, the tables and the state the generator was in; so any two calls store the same
  short code.\<close>

theorem short_code_constant:
  "rp_short_code (last (tbl_repeat_prescriptions (snd (snd
       (create_prescription rnd uuid1 prescription1 institution1 username1 created_by1 s1)))))
     = fst (rnd_randint rnd (rnd_seed rnd 1) 0 99999999)
   \<and> rp_short_code (last (tbl_repeat_prescriptions (snd (snd
       (create_prescription rnd uuid1 prescription1 institution1 username1 created_by1 s1)))))
     = rp_short_code (last (tbl_repeat_prescriptions (snd (snd
       (create_prescription rnd uuid2 prescription2 institution2 username2 created_by2 s2)))))"
  by (simp add: create_prescription_def Let_def)

text \<open>Two prescriptions created one after the other for different patients and
  medications carry the same short code.\<close>

lemma short_codes_collide:
  "map rp_short_code (tbl_repeat_prescriptions (snd (run parse_monthly counting_random
     [(10, Create ''bob'' \<lparr>bp_medication_id = ''med-a'', bp_time_statement = ''R/P1M''\<rparr> dr ''rx-1'' ''br-1''),
      (20, Create ''bob'' \<lparr>bp_medication_id = ''med-b'', bp_time_statement = ''R/P1M''\<rparr> dr ''rx-2'' ''br-2'')]
     (7, db_clinic)))) = [1, 1]"
  by (simp add: example_defs query_defs handler_defs Let_def)

section \<open>Replacing the permissions of a role and the roles of a user\<close>

lemma role_rows_foldl:
  "tbl_permissions_by_role (foldl (\<lambda>d p. add_permission_to_role rid p d) d ps) =
     tbl_permissions_by_role d
       @ map (\<lambda>p. \<lparr>pbr_permission_id = uuid_str p, pbr_role_id = uuid_str rid\<rparr>) ps"
  by (induction ps arbitrary: d) (simp_all add: add_permission_to_role_def)

lemma role_edges_foldl:
  "role_permissions (foldl (\<lambda>d p. add_permission_to_role rid p d) d ps) r =
     role_permissions d r \<union> (if r = uuid_str rid then uuid_str ` set ps else {})"
proof -
  have "map pbr_permission_id (filter (\<lambda>x. pbr_role_id x = r)
          (map (\<lambda>p. \<lparr>pbr_permission_id = uuid_str p, pbr_role_id = uuid_str rid\<rparr>) ps))
        = (if r = uuid_str rid then map uuid_str ps else [])"
    by (induction ps) auto
  then show ?thesis
    by (simp add: role_permissions_def role_rows_foldl)
qed

lemma role_edges_removed:
  "role_permissions (remove_existing_permissions_for_role rid d) r =
     (if r = uuid_str rid then {} else role_permissions d r)"
  by (auto simp: role_permissions_def remove_existing_permissions_for_role_def)

lemma role_frame_foldl:
  "(foldl (\<lambda>d p. add_permission_to_role rid p d) d ps)\<lparr>tbl_permissions_by_role := x\<rparr>
     = d\<lparr>tbl_permissions_by_role := x\<rparr>"
  by (induction ps arbitrary: d) (auto simp: add_permission_to_role_def)

lemma user_rows_foldl:
  "tbl_role_by_user (foldl (\<lambda>d r. add_role_to_user u r d) d rs) =
     tbl_role_by_user d @ map (\<lambda>r. \<lparr>rbu_role_id = uuid_str r, rbu_username = u\<rparr>) rs"
  by (induction rs arbitrary: d) (simp_all add: add_role_to_user_def)

lemma user_edges_foldl:
  "user_roles (foldl (\<lambda>d r. add_role_to_user u r d) d rs) v =
     user_roles d v \<union> (if v = u then uuid_str ` set rs else {})"
proof -
  have "map rbu_role_id (filter (\<lambda>x. rbu_username x = v)
          (map (\<lambda>r. \<lparr>rbu_role_id = uuid_str r, rbu_username = u\<rparr>) rs))
        = (if v = u then map uuid_str rs else [])"
    by (induction rs) auto
  then show ?thesis
    by (simp add: user_roles_def user_rows_foldl)
qed

lemma user_edges_removed:
  "user_roles (remove_existing_roles_for_user u d) v = (if v = u then {} else user_roles d v)"
  by (auto simp: user_roles_def remove_existing_roles_for_user_def)

lemma user_frame_foldl:
  "(foldl (\<lambda>d r. add_role_to_user u r d) d rs)\<lparr>tbl_role_by_user := x\<rparr> = d\<lparr>tbl_role_by_user := x\<rparr>"
  by (induction rs arbitrary: d) (auto simp: add_role_to_user_def)

lemma role_frame_removed:
  "(remove_existing_permissions_for_role rid d)\<lparr>tbl_permissions_by_role := x\<rparr>
     = d\<lparr>tbl_permissions_by_role := x\<rparr>"
  by (simp add: remove_existing_permissions_for_role_def)

lemma user_frame_removed:
  "(remove_existing_roles_for_user u d)\<lparr>tbl_role_by_user := x\<rparr> = d\<lparr>tbl_role_by_user := x\<rparr>"
  by (simp add: remove_existing_roles_for_user_def)

lemma check_permissions_exists_iff:
  "check_permissions_exists d ps =
     (if \<exists>p \<in> set ps. uuid_str p \<notin> p_permission_id ` set (tbl_permissions d)
      then Inl (HTTPException 400 ''One or more permissions not valid.'') else Inr ps)"
  by (auto simp: check_permissions_exists_def any_uuid_def get_all_permissions_def Let_def
      filter_empty_conv)

lemma check_roles_exist_iff:
  "check_roles_exist d rs =
     (if \<exists>r \<in> set rs. uuid_str r \<notin> r_role_id ` set (tbl_roles d)
      then Inl (HTTPException 400 ''One or more roles not found.'') else Inr rs)"
  by (auto simp: check_roles_exist_def any_uuid_def get_roles_def Let_def filter_empty_conv)

text \<open>C7. Replacing the permissions of a role: when a supplied permission identifier does
  not exist the request is declined and the state is unchanged; when the role exists and
  all identifiers exist, the permissions of the role become exactly the supplied ones
  (none for an empty list), the permissions of the other roles and the other tables are
  unchanged. The same for the roles of a user.\<close>

theorem replace_edges:
  "((\<exists>p \<in> set permissions. uuid_str p \<notin> p_permission_id ` set (tbl_permissions d)) \<longrightarrow>
      isl (fst (route_add_permissions_to_role d role_id permissions))
      \<and> snd (route_add_permissions_to_role d role_id permissions) = d)
   \<and> (get_role_by_id d role_id \<noteq> None
        \<and> (\<exists>p \<in> set permissions. uuid_str p \<notin> p_permission_id ` set (tbl_permissions d)) \<longrightarrow>
      route_add_permissions_to_role d role_id permissions
        = (Inl (HTTPException 400 ''One or more permissions not valid.''), d))
   \<and> (get_role_by_id d role_id \<noteq> None
        \<and> \<not> (\<exists>p \<in> set permissions. uuid_str p \<notin> p_permission_id ` set (tbl_permissions d)) \<longrightarrow>
      fst (route_add_permissions_to_role d role_id permissions) = Inr ()
      \<and> role_permissions (snd (route_add_permissions_to_role d role_id permissions)) (uuid_str role_id)
          = uuid_str ` set permissions
      \<and> (\<forall>other. other \<noteq> uuid_str role_id \<longrightarrow>
            role_permissions (snd (route_add_permissions_to_role d role_id permissions)) other
              = role_permissions d other)
      \<and> (snd (route_add_permissions_to_role d role_id permissions))
            \<lparr>tbl_permissions_by_role := tbl_permissions_by_role d\<rparr> = d)
   \<and> (get_role_by_id d role_id \<noteq> None \<longrightarrow>
      role_permissions (snd (route_add_permissions_to_role d role_id [])) (uuid_str role_id) = {})
   \<and> ((\<exists>r \<in> set roles. uuid_str r \<notin> r_role_id ` set (tbl_roles d)) \<longrightarrow>
      route_assign_roles d username roles
        = (Inl (HTTPException 400 ''One or more roles not found.''), d))
   \<and> (\<not> (\<exists>r \<in> set roles. uuid_str r \<notin> r_role_id ` set (tbl_roles d)) \<longrightarrow>
      fst (route_assign_roles d username roles) = Inr ()
      \<and> user_roles (snd (route_assign_roles d username roles)) username = uuid_str ` set roles
      \<and> (\<forall>other. other \<noteq> username \<longrightarrow>
            user_roles (snd (route_assign_roles d username roles)) other = user_roles d other)
      \<and> (snd (route_assign_roles d username roles))\<lparr>tbl_role_by_user := tbl_role_by_user d\<rparr> = d)
   \<and> user_roles (snd (route_assign_roles d username [])) username = {}"
  by (auto simp: route_add_permissions_to_role_def route_assign_roles_def check_role_exists_def
      check_permissions_exists_iff check_roles_exist_iff add_permissions_to_role_def assign_roles_def
      role_edges_foldl role_edges_removed role_frame_foldl user_edges_foldl user_edges_removed
      user_frame_foldl role_frame_removed user_frame_removed
      split: option.splits)


theorem replace_edges_witness:
  "route_add_permissions_to_role db_roles (UUID ''role-1'') [UUID ''perm-2'', UUID ''perm-9'']
     = (Inl (HTTPException 400 ''One or more permissions not valid.''), db_roles)
   \<and> route_add_permissions_to_role db_roles (UUID ''role-1'') [UUID ''perm-2'']
     = (Inr (), db_roles\<lparr>tbl_permissions_by_role :=
          [\<lparr>pbr_permission_id = ''perm-2'', pbr_role_id = ''role-1''\<rparr>]\<rparr>)
   \<and> route_add_permissions_to_role db_roles (UUID ''role-1'') []
     = (Inr (), db_roles\<lparr>tbl_permissions_by_role := []\<rparr>)
   \<and> route_assign_roles db_roles ''bob'' [UUID ''role-2'', UUID ''role-9'']
     = (Inl (HTTPException 400 ''One or more roles not found.''), db_roles)
   \<and> route_assign_roles db_roles ''bob'' [UUID ''role-2'']
     = (Inr (), db_roles\<lparr>tbl_role_by_user :=
          [\<lparr>rbu_role_id = ''role-2'', rbu_username = ''bob''\<rparr>]\<rparr>)
   \<and> role_permissions db_roles ''role-1'' = {''perm-1''}
   \<and> user_roles db_roles ''bob'' = {''role-1''}"
  using replace_edges [of "[UUID ''perm-2'', UUID ''perm-9'']" db_roles "UUID ''role-1''"
          "[UUID ''role-2'', UUID ''role-9'']" "''bob''"]
    replace_edges [of "[UUID ''perm-2'']" db_roles "UUID ''role-1''" "[UUID ''role-2'']" "''bob''"]
    replace_edges [of "[]" db_roles "UUID ''role-1''" "[]" "''bob''"]
  by (simp add: db_roles_def example_defs route_add_permissions_to_role_def route_assign_roles_def
      check_role_exists_def check_permissions_exists_def check_roles_exist_def get_role_by_id_def
      get_roles_def get_all_permissions_def any_uuid_def add_permissions_to_role_def
      assign_roles_def add_permission_to_role_def add_role_to_user_def
      remove_existing_permissions_for_role_def remove_existing_roles_for_user_def
      role_permissions_def user_roles_def)

section \<open>Creating an institution with its master user\<close>

text \<open>What the two handlers do when the institution is inserted and the master user's
  username is already pending: the pharmacy handler deletes the institution again, the
  practice handler does not.\<close>

lemma create_new_pharmacy_rolls_back:
  assumes "\<not> list_ex (\<lambda>i. bi_name (i_details i) = bi_name pharmacy) (tbl_institutions d)"
    and "list_ex (\<lambda>pu. pu_username pu = bu_username master_user) (tbl_pending_users d)"
    and "uuid_i \<notin> i_institution_id ` set (tbl_institutions d)"
  shows "create_new_pharmacy front_end_base_url uuid_i uuid_t pharmacy master_user d
           = (Inl (HTTPException 400 ''User already exists''), d)"
proof -
  have "filter (\<lambda>i. \<not> (i_institution_id i = uuid_i \<and> i_institution_type i = PHARMACY))
          (tbl_institutions d) = tbl_institutions d"
    using assms(3) by (auto simp: filter_id_conv)
  then show ?thesis
    using assms(1,2)
    by (simp add: create_new_pharmacy_def create_pharmacy_def insert_institution_def
        create_pending_user_def delete_pharmacy_def)
qed

lemma create_new_medical_practice_keeps_institution:
  assumes "\<not> list_ex (\<lambda>i. bi_name (i_details i) = bi_name medical_practice) (tbl_institutions d)"
    and "list_ex (\<lambda>pu. pu_username pu = bu_username master_user) (tbl_pending_users d)"
  shows "create_new_medical_practice front_end_base_url uuid_i uuid_t medical_practice master_user d
           = (Inl (HTTPException 400 ''User already exists''),
              d\<lparr>tbl_institutions := tbl_institutions d @
                  [\<lparr>i_institution_id = uuid_i, i_institution_type = MEDICAL_PRACTICE,
                    i_details = medical_practice\<rparr>]\<rparr>)"
  using assms
  by (simp add: create_new_medical_practice_def create_medical_practice_def insert_institution_def
      handle_create_pending_user_def create_pending_user_def)

text \<open>C8. When the institution has been created and creating the master user then meets
  a uniqueness conflict, the institution is deleted before the conflict is reported. The
  pharmacy handler does this; the practice handler reports the conflict and leaves the
  new practice in the table: in \<open>db_pending\<close> the username \<open>admin\<close> is pending, and
  creating a practice with that master user answers 400 with the practice stored.\<close>

theorem create_new_medical_practice_not_rolled_back:
  "create_new_medical_practice ''https://app'' ''practice-2'' ''token-1'' (address ''New Practice'')
       admin db_pending
     = (Inl (HTTPException 400 ''User already exists''),
        db_pending\<lparr>tbl_institutions := tbl_institutions db_pending @
            [\<lparr>i_institution_id = ''practice-2'', i_institution_type = MEDICAL_PRACTICE,
              i_details = address ''New Practice''\<rparr>]\<rparr>)
   \<and> get_medical_practice
        (snd (create_new_medical_practice ''https://app'' ''practice-2'' ''token-1''
                (address ''New Practice'') admin db_pending)) (Some ''practice-2'')
     = Some \<lparr>i_institution_id = ''practice-2'', i_institution_type = MEDICAL_PRACTICE,
              i_details = address ''New Practice''\<rparr>
   \<and> get_medical_practice db_pending (Some ''practice-2'') = None
   \<and> create_new_pharmacy ''https://app'' ''pharmacy-2'' ''token-1'' (address ''New Pharmacy'')
       admin db_pending
     = (Inl (HTTPException 400 ''User already exists''), db_pending)"
  by (simp add: create_new_medical_practice_def create_medical_practice_def insert_institution_def
      handle_create_pending_user_def create_pending_user_def create_new_pharmacy_def
      create_pharmacy_def delete_pharmacy_def get_medical_practice_def
      db_pending_def admin_def example_defs)

end
